theory Spec2Isabelle
  imports Main
begin

section \<open>Entity model (models.py)\<close>

datatype ClassePersonagem = GUERREIRO | MAGO | ARQUEIRO | LADINO | BARDO

datatype TipoItem = ARMA | ARMADURA | AMULETO

text \<open>
  A row of table \<open>personagens\<close> and a row of table \<open>itens_magicos\<close>. The columns keep
  their names, prefixed by the table (\<open>p_\<close>, \<open>i_\<close>). \<open>i_personagem_id\<close> is the nullable
  foreign key: \<open>None\<close> is SQL NULL, an item that nobody owns.
\<close>

record Personagem =
  p_id :: int
  p_nome :: string
  p_nome_aventureiro :: string
  p_classe :: ClassePersonagem
  p_level :: int
  p_forca_base :: int
  p_defesa_base :: int

record ItemMagico =
  i_id :: int
  i_nome :: string
  i_tipo :: TipoItem
  i_forca :: int
  i_defesa :: int
  i_personagem_id :: "int option"

text \<open>The database: the two tables, rows in storage order.\<close>

record db =
  personagens :: "Personagem list"
  itens_magicos :: "ItemMagico list"

definition db_vazio :: db where
  "db_vazio = \<lparr>personagens = [], itens_magicos = []\<rparr>"

text \<open>The relationship \<open>Personagem.itens_magicos\<close>: the items whose foreign key is the character.\<close>

definition itens_magicos_de :: "db \<Rightarrow> int \<Rightarrow> ItemMagico list" where
  "itens_magicos_de s pid = filter (\<lambda>i. i_personagem_id i = Some pid) (itens_magicos s)"

text \<open>
  The check constraints of the two tables (\<open>__table_args__\<close>), which the database
  tests when a row is inserted.
\<close>

definition check_personagem :: "Personagem \<Rightarrow> bool" where
  "check_personagem p =
     (p_forca_base p + p_defesa_base p \<le> 10 \<and> p_forca_base p \<ge> 0 \<and> p_defesa_base p \<ge> 0)"

text \<open>
  The column \<open>tipo\<close> is declared \<open>Enum(TipoItem)\<close>: what it stores for a member is the
  member's name (\<open>ARMA\<close>, \<open>ARMADURA\<close>, \<open>AMULETO\<close>), not its value. The two constraints
  on the type compare the column with the values "Arma" and "Armadura".
\<close>

fun coluna_tipo :: "TipoItem \<Rightarrow> string" where
  "coluna_tipo ARMA = ''ARMA''"
| "coluna_tipo ARMADURA = ''ARMADURA''"
| "coluna_tipo AMULETO = ''AMULETO''"

definition check_item :: "ItemMagico \<Rightarrow> bool" where
  "check_item i =
     ((i_forca i \<ge> 0 \<and> i_forca i \<le> 10)
      \<and> (i_defesa i \<ge> 0 \<and> i_defesa i \<le> 10)
      \<and> (i_forca i > 0 \<or> i_defesa i > 0)
      \<and> (coluna_tipo (i_tipo i) \<noteq> ''Arma''
          \<or> (coluna_tipo (i_tipo i) = ''Arma'' \<and> i_defesa i = 0))
      \<and> (coluna_tipo (i_tipo i) \<noteq> ''Armadura''
          \<or> (coluna_tipo (i_tipo i) = ''Armadura'' \<and> i_forca i = 0)))"

section \<open>Validation of request bodies (the pydantic models of main.py)\<close>

text \<open>
  The kinds of validation error. \<open>Missing\<close> is pydantic's error for a required field that
  the body does not have, \<open>OutOfRange\<close> the error of a \<open>conint\<close> bound; the other three
  are the \<open>ValueError\<close>s of the validators: \<open>TypeMismatch\<close> for the two messages
  "Itens do tipo Armadura devem ter forca zero" and "Itens do tipo Arma devem ter defesa
  zero", \<open>NoAttribute\<close> for "Item deve ter pelo menos um atributo maior que zero",
  \<open>BudgetExceeded\<close> for "A soma de forca e defesa nao pode exceder 10 pontos".
\<close>

datatype erro_validacao = Missing | OutOfRange | TypeMismatch | NoAttribute | BudgetExceeded

text \<open>\<open>conint(ge=..., le=...)\<close>: the bounds that are given are checked.\<close>

definition conint :: "int option \<Rightarrow> int option \<Rightarrow> int \<Rightarrow> erro_validacao + int" where
  "conint ge le v =
     (if (case ge of None \<Rightarrow> False | Some g \<Rightarrow> v < g) then Inl OutOfRange
      else if (case le of None \<Rightarrow> False | Some l \<Rightarrow> l < v) then Inl OutOfRange
      else Inr v)"

text \<open>A required field: absent from the body, it is an error.\<close>

definition obrigatorio :: "'a option \<Rightarrow> erro_validacao + 'a" where
  "obrigatorio campo = (case campo of None \<Rightarrow> Inl Missing | Some v \<Rightarrow> Inr v)"

text \<open>
  What a field contributes to the dictionary \<open>values\<close> (its value when it validated,
  nothing when it failed) and to the list of errors (tagged with the field's name).
\<close>

definition ok :: "erro_validacao + 'a \<Rightarrow> 'a option" where
  "ok r = (case r of Inl _ \<Rightarrow> None | Inr v \<Rightarrow> Some v)"

definition erros :: "string \<Rightarrow> erro_validacao + 'a \<Rightarrow> (string \<times> erro_validacao) list" where
  "erros loc r = (case r of Inl e \<Rightarrow> [(loc, e)] | Inr _ \<Rightarrow> [])"

subsection \<open>ItemMagicoBase, ItemMagicoCriar\<close>

text \<open>
  The body of a request, field by field: \<open>None\<close> is a field that the body does not have.
  \<open>forca\<close> and \<open>defesa\<close> have the default 0.
\<close>

record corpo_ItemMagico =
  bi_nome :: "string option"
  bi_tipo :: "TipoItem option"
  bi_forca :: "int option"
  bi_defesa :: "int option"

text \<open>The dictionary \<open>values\<close> that a validator receives: the fields validated so far.\<close>

record values_ItemMagico =
  vi_nome :: "string option"
  vi_tipo :: "TipoItem option"
  vi_forca :: "int option"
  vi_defesa :: "int option"

text \<open>The validated model.\<close>

record ItemMagicoCriar =
  ic_nome :: string
  ic_tipo :: TipoItem
  ic_forca :: int
  ic_defesa :: int

definition validar_forca_arma :: "int \<Rightarrow> values_ItemMagico \<Rightarrow> erro_validacao + int" where
  "validar_forca_arma v values =
     (if vi_tipo values \<noteq> None \<and> vi_tipo values = Some ARMADURA \<and> v \<noteq> 0
      then Inl TypeMismatch else Inr v)"

definition validar_defesa_armadura :: "int \<Rightarrow> values_ItemMagico \<Rightarrow> erro_validacao + int" where
  "validar_defesa_armadura v values =
     (if vi_tipo values \<noteq> None \<and> vi_tipo values = Some ARMA \<and> v \<noteq> 0
      then Inl TypeMismatch else Inr v)"

definition validar_item_com_atributo :: "int \<Rightarrow> values_ItemMagico \<Rightarrow> erro_validacao + int" where
  "validar_item_com_atributo v values =
     (if vi_forca values \<noteq> None \<and> vi_forca values = Some 0 \<and> v = 0
      then Inl NoAttribute else Inr v)"

text \<open>
  One field of the model. A field that the body does not have takes its default, and no
  validator runs on a default (no validator here is declared \<open>always\<close>). On a value that
  is given, the type's own check runs first, then the validators of the field in the order
  of the class; the first failure ends the field.
\<close>

definition campo_forca :: "int option \<Rightarrow> values_ItemMagico \<Rightarrow> erro_validacao + int" where
  "campo_forca campo values =
     (case campo of
        None \<Rightarrow> Inr 0
      | Some v \<Rightarrow>
          (case conint (Some 0) (Some 10) v of
             Inl e \<Rightarrow> Inl e
           | Inr v1 \<Rightarrow> validar_forca_arma v1 values))"

definition campo_defesa :: "int option \<Rightarrow> values_ItemMagico \<Rightarrow> erro_validacao + int" where
  "campo_defesa campo values =
     (case campo of
        None \<Rightarrow> Inr 0
      | Some v \<Rightarrow>
          (case conint (Some 0) (Some 10) v of
             Inl e \<Rightarrow> Inl e
           | Inr v1 \<Rightarrow>
               (case validar_defesa_armadura v1 values of
                  Inl e \<Rightarrow> Inl e
                | Inr v2 \<Rightarrow> validar_item_com_atributo v2 values)))"

text \<open>
  The model: the fields in the order of the class, each seeing in \<open>values\<close> the fields
  before it that validated. The errors of all fields are collected; the model is built
  when there is none.
\<close>

definition validar_ItemMagicoCriar ::
    "corpo_ItemMagico \<Rightarrow> (string \<times> erro_validacao) list + ItemMagicoCriar" where
  "validar_ItemMagicoCriar corpo =
     (let r_nome = obrigatorio (bi_nome corpo);
          r_tipo = obrigatorio (bi_tipo corpo);
          r_forca = campo_forca (bi_forca corpo)
            \<lparr>vi_nome = ok r_nome, vi_tipo = ok r_tipo, vi_forca = None, vi_defesa = None\<rparr>;
          r_defesa = campo_defesa (bi_defesa corpo)
            \<lparr>vi_nome = ok r_nome, vi_tipo = ok r_tipo, vi_forca = ok r_forca, vi_defesa = None\<rparr>;
          errors = erros ''nome'' r_nome @ erros ''tipo'' r_tipo
                   @ erros ''forca'' r_forca @ erros ''defesa'' r_defesa
      in case r_nome of Inl _ \<Rightarrow> Inl errors | Inr n \<Rightarrow>
         (case r_tipo of Inl _ \<Rightarrow> Inl errors | Inr t \<Rightarrow>
         (case r_forca of Inl _ \<Rightarrow> Inl errors | Inr f \<Rightarrow>
         (case r_defesa of Inl _ \<Rightarrow> Inl errors | Inr d \<Rightarrow>
            Inr \<lparr>ic_nome = n, ic_tipo = t, ic_forca = f, ic_defesa = d\<rparr>))))"

subsection \<open>PersonagemBase, PersonagemCriar\<close>

record corpo_Personagem =
  bp_nome :: "string option"
  bp_nome_aventureiro :: "string option"
  bp_classe :: "ClassePersonagem option"
  bp_level :: "int option"
  bp_forca_base :: "int option"
  bp_defesa_base :: "int option"

record values_Personagem =
  vp_nome :: "string option"
  vp_nome_aventureiro :: "string option"
  vp_classe :: "ClassePersonagem option"
  vp_level :: "int option"
  vp_forca_base :: "int option"
  vp_defesa_base :: "int option"

record PersonagemCriar =
  pc_nome :: string
  pc_nome_aventureiro :: string
  pc_classe :: ClassePersonagem
  pc_level :: int
  pc_forca_base :: int
  pc_defesa_base :: int

definition validar_total_pontos :: "int \<Rightarrow> values_Personagem \<Rightarrow> erro_validacao + int" where
  "validar_total_pontos v values =
     (case vp_forca_base values of
        None \<Rightarrow> Inr v
      | Some forca_base \<Rightarrow> if forca_base + v > 10 then Inl BudgetExceeded else Inr v)"

definition campo_level :: "int option \<Rightarrow> erro_validacao + int" where
  "campo_level campo = (case campo of None \<Rightarrow> Inr 1 | Some v \<Rightarrow> conint (Some 1) None v)"

definition campo_forca_base :: "int option \<Rightarrow> erro_validacao + int" where
  "campo_forca_base campo =
     (case campo of None \<Rightarrow> Inl Missing | Some v \<Rightarrow> conint (Some 0) (Some 10) v)"

definition campo_defesa_base :: "int option \<Rightarrow> values_Personagem \<Rightarrow> erro_validacao + int" where
  "campo_defesa_base campo values =
     (case campo of
        None \<Rightarrow> Inl Missing
      | Some v \<Rightarrow>
          (case conint (Some 0) (Some 10) v of
             Inl e \<Rightarrow> Inl e
           | Inr v1 \<Rightarrow> validar_total_pontos v1 values))"

definition validar_PersonagemCriar ::
    "corpo_Personagem \<Rightarrow> (string \<times> erro_validacao) list + PersonagemCriar" where
  "validar_PersonagemCriar corpo =
     (let r_nome = obrigatorio (bp_nome corpo);
          r_nome_aventureiro = obrigatorio (bp_nome_aventureiro corpo);
          r_classe = obrigatorio (bp_classe corpo);
          r_level = campo_level (bp_level corpo);
          r_forca_base = campo_forca_base (bp_forca_base corpo);
          r_defesa_base = campo_defesa_base (bp_defesa_base corpo)
            \<lparr>vp_nome = ok r_nome, vp_nome_aventureiro = ok r_nome_aventureiro,
             vp_classe = ok r_classe, vp_level = ok r_level,
             vp_forca_base = ok r_forca_base, vp_defesa_base = None\<rparr>;
          errors = erros ''nome'' r_nome @ erros ''nome_aventureiro'' r_nome_aventureiro
                   @ erros ''classe'' r_classe @ erros ''level'' r_level
                   @ erros ''forca_base'' r_forca_base @ erros ''defesa_base'' r_defesa_base
      in case r_nome of Inl _ \<Rightarrow> Inl errors | Inr n \<Rightarrow>
         (case r_nome_aventureiro of Inl _ \<Rightarrow> Inl errors | Inr na \<Rightarrow>
         (case r_classe of Inl _ \<Rightarrow> Inl errors | Inr c \<Rightarrow>
         (case r_level of Inl _ \<Rightarrow> Inl errors | Inr l \<Rightarrow>
         (case r_forca_base of Inl _ \<Rightarrow> Inl errors | Inr f \<Rightarrow>
         (case r_defesa_base of Inl _ \<Rightarrow> Inl errors | Inr d \<Rightarrow>
            Inr \<lparr>pc_nome = n, pc_nome_aventureiro = na, pc_classe = c, pc_level = l,
                 pc_forca_base = f, pc_defesa_base = d\<rparr>))))))"

text \<open>The bodies of the two routes that take a single field.\<close>

record AtualizarNomeAventureiro =
  nome_aventureiro :: string

record AdicionarItemPersonagem =
  item_id :: int

section \<open>The routes (main.py)\<close>

text \<open>
  What a request can end with instead of a result: the 422 of a body that does not
  validate, an \<open>HTTPException\<close> of a route (one constructor for each \<open>detail\<close>), or an
  exception that no route catches (a constraint that the database refuses, an attribute
  read on a body that is \<open>None\<close>), which the framework answers with 500.
\<close>

datatype erro =
    ValidationError "(string \<times> erro_validacao) list"
  | NotFound_Personagem
  | NotFound_Item
  | NotFound_Inventario
  | NotFound_Amuleto
  | AlreadyOwned
  | AmuletConflict
  | IntegrityError
  | AttributeError

fun status_code :: "erro \<Rightarrow> nat" where
  "status_code (ValidationError _) = 422"
| "status_code NotFound_Personagem = 404"
| "status_code NotFound_Item = 404"
| "status_code NotFound_Inventario = 404"
| "status_code NotFound_Amuleto = 404"
| "status_code AlreadyOwned = 400"
| "status_code AmuletConflict = 400"
| "status_code IntegrityError = 500"
| "status_code AttributeError = 500"

text \<open>
  \<open>novo_id\<close> is the identifier that the database gives the new row. The database is not
  part of the sources, so the identifier is a parameter; the primary key refuses one that
  the table already has.
\<close>

definition criar_personagem :: "db \<Rightarrow> int \<Rightarrow> corpo_Personagem \<Rightarrow> erro + db \<times> Personagem" where
  "criar_personagem s novo_id corpo =
     (case validar_PersonagemCriar corpo of
        Inl es \<Rightarrow> Inl (ValidationError es)
      | Inr personagem \<Rightarrow>
          (let db_personagem =
                 \<lparr>p_id = novo_id,
                  p_nome = pc_nome personagem,
                  p_nome_aventureiro = pc_nome_aventureiro personagem,
                  p_classe = pc_classe personagem,
                  p_level = pc_level personagem,
                  p_forca_base = pc_forca_base personagem,
                  p_defesa_base = pc_defesa_base personagem\<rparr>
           in if novo_id \<in> set (map p_id (personagens s)) \<or> \<not> check_personagem db_personagem
              then Inl IntegrityError
              else Inr (s\<lparr>personagens := personagens s @ [db_personagem]\<rparr>, db_personagem)))"

definition buscar_personagem :: "db \<Rightarrow> int \<Rightarrow> erro + Personagem" where
  "buscar_personagem s personagem_id =
     (case find (\<lambda>p. p_id p = personagem_id) (personagens s) of
        None \<Rightarrow> Inl NotFound_Personagem
      | Some personagem \<Rightarrow> Inr personagem)"

definition atualizar_nome_aventureiro ::
    "db \<Rightarrow> int \<Rightarrow> AtualizarNomeAventureiro option \<Rightarrow> erro + db \<times> Personagem" where
  "atualizar_nome_aventureiro s personagem_id dados =
     (case find (\<lambda>p. p_id p = personagem_id) (personagens s) of
        None \<Rightarrow> Inl NotFound_Personagem
      | Some personagem \<Rightarrow>
          (case dados of
             None \<Rightarrow> Inl AttributeError
           | Some d \<Rightarrow>
               Inr (s\<lparr>personagens :=
                        map (\<lambda>p. if p_id p = p_id personagem
                                  then p\<lparr>p_nome_aventureiro := nome_aventureiro d\<rparr> else p)
                            (personagens s)\<rparr>,
                    personagem\<lparr>p_nome_aventureiro := nome_aventureiro d\<rparr>)))"

definition remover_personagem :: "db \<Rightarrow> int \<Rightarrow> erro + db" where
  "remover_personagem s personagem_id =
     (case find (\<lambda>p. p_id p = personagem_id) (personagens s) of
        None \<Rightarrow> Inl NotFound_Personagem
      | Some personagem \<Rightarrow>
          Inr \<lparr>personagens = filter (\<lambda>p. p_id p \<noteq> p_id personagem) (personagens s),
               itens_magicos =
                 map (\<lambda>i. if i_personagem_id i = Some (p_id personagem)
                           then i\<lparr>i_personagem_id := None\<rparr> else i)
                     (itens_magicos s)\<rparr>)"

definition criar_item_magico :: "db \<Rightarrow> int \<Rightarrow> corpo_ItemMagico \<Rightarrow> erro + db \<times> ItemMagico" where
  "criar_item_magico s novo_id corpo =
     (case validar_ItemMagicoCriar corpo of
        Inl es \<Rightarrow> Inl (ValidationError es)
      | Inr item \<Rightarrow>
          (let db_item =
                 \<lparr>i_id = novo_id,
                  i_nome = ic_nome item,
                  i_tipo = ic_tipo item,
                  i_forca = ic_forca item,
                  i_defesa = ic_defesa item,
                  i_personagem_id = None\<rparr>
           in if novo_id \<in> set (map i_id (itens_magicos s)) \<or> \<not> check_item db_item
              then Inl IntegrityError
              else Inr (s\<lparr>itens_magicos := itens_magicos s @ [db_item]\<rparr>, db_item)))"

definition buscar_item_magico :: "db \<Rightarrow> int \<Rightarrow> erro + ItemMagico" where
  "buscar_item_magico s iid =
     (case find (\<lambda>i. i_id i = iid) (itens_magicos s) of
        None \<Rightarrow> Inl NotFound_Item
      | Some item \<Rightarrow> Inr item)"

definition adicionar_item_personagem ::
    "db \<Rightarrow> int \<Rightarrow> AdicionarItemPersonagem option \<Rightarrow> erro + db \<times> Personagem" where
  "adicionar_item_personagem s personagem_id dados =
     (case find (\<lambda>p. p_id p = personagem_id) (personagens s) of
        None \<Rightarrow> Inl NotFound_Personagem
      | Some personagem \<Rightarrow>
          (case dados of
             None \<Rightarrow> Inl AttributeError
           | Some d \<Rightarrow>
               (case find (\<lambda>i. i_id i = item_id d) (itens_magicos s) of
                  None \<Rightarrow> Inl NotFound_Item
                | Some item \<Rightarrow>
                    if i_personagem_id item \<noteq> None \<and> i_personagem_id item \<noteq> Some personagem_id
                    then Inl AlreadyOwned
                    else if i_tipo item = AMULETO
                         \<and> (case find (\<lambda>i. i_personagem_id i = Some personagem_id
                                            \<and> i_tipo i = AMULETO) (itens_magicos s) of
                              None \<Rightarrow> False
                            | Some amuleto_existente \<Rightarrow> i_id amuleto_existente \<noteq> i_id item)
                    then Inl AmuletConflict
                    else Inr (s\<lparr>itens_magicos :=
                                  map (\<lambda>i. if i_id i = i_id item
                                            then i\<lparr>i_personagem_id := Some (p_id personagem)\<rparr>
                                            else i)
                                      (itens_magicos s)\<rparr>,
                              personagem))))"

definition listar_itens_por_personagem :: "db \<Rightarrow> int \<Rightarrow> erro + ItemMagico list" where
  "listar_itens_por_personagem s personagem_id =
     (case find (\<lambda>p. p_id p = personagem_id) (personagens s) of
        None \<Rightarrow> Inl NotFound_Personagem
      | Some personagem \<Rightarrow> Inr (itens_magicos_de s (p_id personagem)))"

definition remover_item_do_personagem :: "db \<Rightarrow> int \<Rightarrow> int \<Rightarrow> erro + db" where
  "remover_item_do_personagem s personagem_id iid =
     (case find (\<lambda>p. p_id p = personagem_id) (personagens s) of
        None \<Rightarrow> Inl NotFound_Personagem
      | Some personagem \<Rightarrow>
          (case find (\<lambda>i. i_id i = iid \<and> i_personagem_id i = Some personagem_id)
                     (itens_magicos s) of
             None \<Rightarrow> Inl NotFound_Inventario
           | Some item \<Rightarrow>
               Inr (s\<lparr>itens_magicos :=
                        map (\<lambda>i. if i_id i = i_id item then i\<lparr>i_personagem_id := None\<rparr> else i)
                            (itens_magicos s)\<rparr>)))"

definition buscar_amuleto_personagem :: "db \<Rightarrow> int \<Rightarrow> erro + ItemMagico" where
  "buscar_amuleto_personagem s personagem_id =
     (case find (\<lambda>p. p_id p = personagem_id) (personagens s) of
        None \<Rightarrow> Inl NotFound_Personagem
      | Some personagem \<Rightarrow>
          (case find (\<lambda>i. i_personagem_id i = Some personagem_id \<and> i_tipo i = AMULETO)
                     (itens_magicos s) of
             None \<Rightarrow> Inl NotFound_Amuleto
           | Some amuleto \<Rightarrow> Inr amuleto))"

section \<open>Reachable states\<close>

text \<open>
  The states of the database that the routes can produce from the empty one. The routes
  that only read leave the state as it is.
\<close>

inductive alcancavel :: "db \<Rightarrow> bool" where
  inicio: "alcancavel db_vazio"
| criar_p: "alcancavel s \<Longrightarrow> criar_personagem s n corpo = Inr (s', p) \<Longrightarrow> alcancavel s'"
| atualizar: "alcancavel s \<Longrightarrow> atualizar_nome_aventureiro s pid dados = Inr (s', p) \<Longrightarrow> alcancavel s'"
| remover_p: "alcancavel s \<Longrightarrow> remover_personagem s pid = Inr s' \<Longrightarrow> alcancavel s'"
| criar_i: "alcancavel s \<Longrightarrow> criar_item_magico s n corpo_i = Inr (s', i) \<Longrightarrow> alcancavel s'"
| adicionar: "alcancavel s \<Longrightarrow> adicionar_item_personagem s pid dados_i = Inr (s', p) \<Longrightarrow> alcancavel s'"
| remover_i: "alcancavel s \<Longrightarrow> remover_item_do_personagem s pid iid = Inr s' \<Longrightarrow> alcancavel s'"

text \<open>The Amulet items of an owner.\<close>

definition amuletos_de :: "db \<Rightarrow> int \<Rightarrow> ItemMagico list" where
  "amuletos_de s pid =
     filter (\<lambda>i. i_personagem_id i = Some pid \<and> i_tipo i = AMULETO) (itens_magicos s)"


section \<open>The invariant of the item table\<close>

text \<open>
  Two Amulet rows with the same owner are the same item: there is no second Amulet of an
  owner. With the primary key (no two rows with one identifier) it is the invariant that
  every route keeps.
\<close>

definition amuleto_unico :: "ItemMagico list \<Rightarrow> bool" where
  "amuleto_unico xs =
     (\<forall>i\<in>set xs. \<forall>j\<in>set xs.
        i_tipo i = AMULETO \<and> i_tipo j = AMULETO \<and> i_personagem_id i \<noteq> None
        \<and> i_personagem_id i = i_personagem_id j \<longrightarrow> i_id i = i_id j)"

definition invariante :: "db \<Rightarrow> bool" where
  "invariante s = (distinct (map i_id (itens_magicos s)) \<and> amuleto_unico (itens_magicos s))"

section \<open>The type rules in the words of the specification\<close>




section \<open>Example data\<close>

definition corpo_heroi :: "int \<Rightarrow> int \<Rightarrow> corpo_Personagem" where
  "corpo_heroi f d =
     \<lparr>bp_nome = Some ''Ana'', bp_nome_aventureiro = Some ''Lobo'', bp_classe = Some MAGO,
      bp_level = None, bp_forca_base = Some f, bp_defesa_base = Some d\<rparr>"

definition heroi :: "int \<Rightarrow> Personagem" where
  "heroi n =
     \<lparr>p_id = n, p_nome = ''Ana'', p_nome_aventureiro = ''Lobo'', p_classe = MAGO,
      p_level = 1, p_forca_base = 6, p_defesa_base = 4\<rparr>"

definition corpo_item :: "TipoItem \<Rightarrow> int \<Rightarrow> int \<Rightarrow> corpo_ItemMagico" where
  "corpo_item t f d =
     \<lparr>bi_nome = Some ''Olho'', bi_tipo = Some t, bi_forca = Some f, bi_defesa = Some d\<rparr>"

definition amuleto :: "int \<Rightarrow> int option \<Rightarrow> ItemMagico" where
  "amuleto n dono =
     \<lparr>i_id = n, i_nome = ''Olho'', i_tipo = AMULETO, i_forca = 1, i_defesa = 1,
      i_personagem_id = dono\<rparr>"

text \<open>
  Two characters, each with an Amulet, and a third Amulet that nobody owns.
\<close>

definition estado_exemplo :: db where
  "estado_exemplo =
     \<lparr>personagens = [heroi 1, heroi 2],
      itens_magicos = [amuleto 1 (Some 1), amuleto 2 (Some 2), amuleto 3 None]\<rparr>"

section \<open>Lemmas on the validation\<close>

lemmas validacao_item_defs =
  validar_ItemMagicoCriar_def campo_forca_def campo_defesa_def conint_def obrigatorio_def
  ok_def erros_def validar_forca_arma_def validar_defesa_armadura_def
  validar_item_com_atributo_def Let_def

lemmas validacao_personagem_defs =
  validar_PersonagemCriar_def campo_level_def campo_forca_base_def campo_defesa_base_def
  conint_def obrigatorio_def ok_def erros_def validar_total_pontos_def Let_def

lemma validar_heroi:
  "validar_PersonagemCriar (corpo_heroi 6 4) =
     Inr \<lparr>pc_nome = ''Ana'', pc_nome_aventureiro = ''Lobo'', pc_classe = MAGO, pc_level = 1,
          pc_forca_base = 6, pc_defesa_base = 4\<rparr>"
  by (simp add: validacao_personagem_defs corpo_heroi_def)

lemma validar_amuleto:
  "validar_ItemMagicoCriar (corpo_item AMULETO 1 1) =
     Inr \<lparr>ic_nome = ''Olho'', ic_tipo = AMULETO, ic_forca = 1, ic_defesa = 1\<rparr>"
  by (simp add: validacao_item_defs corpo_item_def)

section \<open>Validation of an item: the order of the checks\<close>

text \<open>
  Claim C6. An Armor whose body gives strength 0 and defense 0 is refused with the error of
  the item without attribute, on the field \<open>defesa\<close>, and with no error of type
  consistency: the two type validators accept the values, and the validator that follows
  them on \<open>defesa\<close> refuses. This holds whatever the name is (a body without a name has
  the error of the missing name before it).
\<close>

theorem armadura_zerada_sem_atributo:
  "validar_forca_arma 0 \<lparr>vi_nome = ok (obrigatorio nm), vi_tipo = Some ARMADURA,
                          vi_forca = None, vi_defesa = None\<rparr> = Inr 0
   \<and> validar_defesa_armadura 0 \<lparr>vi_nome = ok (obrigatorio nm), vi_tipo = Some ARMADURA,
                          vi_forca = Some 0, vi_defesa = None\<rparr> = Inr 0
   \<and> validar_item_com_atributo 0 \<lparr>vi_nome = ok (obrigatorio nm), vi_tipo = Some ARMADURA,
                          vi_forca = Some 0, vi_defesa = None\<rparr> = Inl NoAttribute
   \<and> validar_ItemMagicoCriar
        \<lparr>bi_nome = nm, bi_tipo = Some ARMADURA, bi_forca = Some 0, bi_defesa = Some 0\<rparr>
      = Inl (erros ''nome'' (obrigatorio nm) @ [(''defesa'', NoAttribute)])
   \<and> (loc, TypeMismatch) \<notin> set (erros ''nome'' (obrigatorio nm) @ [(''defesa'', NoAttribute)])
   \<and> validar_ItemMagicoCriar
        \<lparr>bi_nome = Some n, bi_tipo = Some ARMADURA, bi_forca = Some 0, bi_defesa = Some 0\<rparr>
      = Inl [(''defesa'', NoAttribute)]"
  by (simp add: validacao_item_defs split: option.splits)

section \<open>Validation of a character: the budget of points\<close>

text \<open>
  Claim C4. When the body gives both base attributes within 0..10, the validation reports
  the budget error (on \<open>defesa_base\<close>) exactly when their sum exceeds 10, whatever the
  other fields are. A character with strength 6 and defense 4 validates and is created; one
  with strength 7 and defense 4 is refused with the budget error alone.
\<close>

theorem orcamento_de_pontos:
  "(bp_forca_base corpo = Some f \<and> 0 \<le> f \<and> f \<le> 10
    \<and> bp_defesa_base corpo = Some d \<and> 0 \<le> d \<and> d \<le> 10
    \<longrightarrow> ((\<exists>es. validar_PersonagemCriar corpo = Inl es \<and> (''defesa_base'', BudgetExceeded) \<in> set es)
         = (f + d > 10)))
   \<and> validar_PersonagemCriar (corpo_heroi 6 4) =
        Inr \<lparr>pc_nome = ''Ana'', pc_nome_aventureiro = ''Lobo'', pc_classe = MAGO, pc_level = 1,
             pc_forca_base = 6, pc_defesa_base = 4\<rparr>
   \<and> (n \<notin> set (map p_id (personagens s))
        \<longrightarrow> criar_personagem s n (corpo_heroi 6 4) =
              Inr (s\<lparr>personagens := personagens s @ [heroi n]\<rparr>, heroi n))
   \<and> validar_PersonagemCriar (corpo_heroi 7 4) = Inl [(''defesa_base'', BudgetExceeded)]
   \<and> criar_personagem s n (corpo_heroi 7 4) =
        Inl (ValidationError [(''defesa_base'', BudgetExceeded)])"
proof -
  have iff: "(\<exists>es. validar_PersonagemCriar corpo = Inl es \<and> (''defesa_base'', BudgetExceeded) \<in> set es)
         = (f + d > 10)"
    if "bp_forca_base corpo = Some f" "0 \<le> f" "f \<le> 10"
       "bp_defesa_base corpo = Some d" "0 \<le> d" "d \<le> 10"
    using that by (auto simp: validacao_personagem_defs split: option.splits)
  have bad: "validar_PersonagemCriar (corpo_heroi 7 4) = Inl [(''defesa_base'', BudgetExceeded)]"
    by (simp add: validacao_personagem_defs corpo_heroi_def)
  have good: "criar_personagem s n (corpo_heroi 6 4) =
              Inr (s\<lparr>personagens := personagens s @ [heroi n]\<rparr>, heroi n)"
    if "n \<notin> set (map p_id (personagens s))"
    using that by (simp add: criar_personagem_def validar_heroi check_personagem_def heroi_def Let_def)
  show ?thesis
    using iff good bad validar_heroi by (simp add: criar_personagem_def)
qed

theorem orcamento_de_pontos_witness:
  "bp_forca_base (corpo_heroi 7 4) = Some 7 \<and> bp_defesa_base (corpo_heroi 7 4) = Some 4
   \<and> (\<exists>es. validar_PersonagemCriar (corpo_heroi 7 4) = Inl es
            \<and> (''defesa_base'', BudgetExceeded) \<in> set es)
   \<and> 1 \<notin> set (map p_id (personagens db_vazio))
   \<and> criar_personagem db_vazio 1 (corpo_heroi 6 4) =
        Inr (db_vazio\<lparr>personagens := personagens db_vazio @ [heroi 1]\<rparr>, heroi 1)"
  using orcamento_de_pontos [of "corpo_heroi 7 4" 7 4 1 db_vazio]
  by (simp add: corpo_heroi_def db_vazio_def)

section \<open>Validation of an item: type consistency\<close>

text \<open>
  Claim C3, as amended. An Armor whose body gives a strength other than 0 is always
  refused, and so is a Weapon whose body gives a defense other than 0. The error on the
  field is the one of type consistency exactly when the value is within 0..10; outside
  this range the bound of the field's type refuses the value first, the validator does not
  run, and the error on the field is the one of the range. An Amulet never has an error of
  type consistency, whatever its strength and defense.
\<close>

theorem consistencia_de_tipo:
  "(bi_tipo corpo = Some ARMADURA \<and> bi_forca corpo = Some v \<and> v \<noteq> 0 \<longrightarrow>
      (\<exists>es. validar_ItemMagicoCriar corpo = Inl es
            \<and> ((''forca'', TypeMismatch) \<in> set es) = (0 \<le> v \<and> v \<le> 10)
            \<and> ((''forca'', OutOfRange) \<in> set es) = (\<not> (0 \<le> v \<and> v \<le> 10))))
   \<and> (bi_tipo corpo = Some ARMA \<and> bi_defesa corpo = Some w \<and> w \<noteq> 0 \<longrightarrow>
      (\<exists>es. validar_ItemMagicoCriar corpo = Inl es
            \<and> ((''defesa'', TypeMismatch) \<in> set es) = (0 \<le> w \<and> w \<le> 10)
            \<and> ((''defesa'', OutOfRange) \<in> set es) = (\<not> (0 \<le> w \<and> w \<le> 10))))
   \<and> (bi_tipo corpo = Some AMULETO \<and> validar_ItemMagicoCriar corpo = Inl es
        \<longrightarrow> (loc, TypeMismatch) \<notin> set es)"
proof (intro conjI impI)
  assume "bi_tipo corpo = Some ARMADURA \<and> bi_forca corpo = Some v \<and> v \<noteq> 0"
  then show "\<exists>es. validar_ItemMagicoCriar corpo = Inl es
            \<and> ((''forca'', TypeMismatch) \<in> set es) = (0 \<le> v \<and> v \<le> 10)
            \<and> ((''forca'', OutOfRange) \<in> set es) = (\<not> (0 \<le> v \<and> v \<le> 10))"
    by (cases "bi_nome corpo"; cases "bi_defesa corpo")
       (auto simp: validacao_item_defs)
next
  assume "bi_tipo corpo = Some ARMA \<and> bi_defesa corpo = Some w \<and> w \<noteq> 0"
  then show "\<exists>es. validar_ItemMagicoCriar corpo = Inl es
            \<and> ((''defesa'', TypeMismatch) \<in> set es) = (0 \<le> w \<and> w \<le> 10)
            \<and> ((''defesa'', OutOfRange) \<in> set es) = (\<not> (0 \<le> w \<and> w \<le> 10))"
    by (cases "bi_nome corpo"; cases "bi_forca corpo")
       (auto simp: validacao_item_defs)
next
  assume "bi_tipo corpo = Some AMULETO \<and> validar_ItemMagicoCriar corpo = Inl es"
  then show "(loc, TypeMismatch) \<notin> set es"
    by (cases "bi_nome corpo"; cases "bi_forca corpo"; cases "bi_defesa corpo")
       (auto simp: validacao_item_defs split: if_splits)
qed

theorem consistencia_de_tipo_witness:
  "(\<exists>es. validar_ItemMagicoCriar (corpo_item ARMADURA 3 0) = Inl es
         \<and> (''forca'', TypeMismatch) \<in> set es)
   \<and> (\<exists>es. validar_ItemMagicoCriar (corpo_item ARMA 0 3) = Inl es
         \<and> (''defesa'', TypeMismatch) \<in> set es)
   \<and> validar_ItemMagicoCriar (corpo_item AMULETO 0 0) = Inl [(''defesa'', NoAttribute)]
   \<and> (''defesa'', TypeMismatch) \<notin> set [(''defesa'', NoAttribute)]"
  using consistencia_de_tipo [of "corpo_item ARMADURA 3 0" 3 0 "[]" "''defesa''"]
        consistencia_de_tipo [of "corpo_item ARMA 0 3" 0 3 "[]" "''defesa''"]
        consistencia_de_tipo [of "corpo_item AMULETO 0 0" 0 0 "[(''defesa'', NoAttribute)]" "''defesa''"]
  by (simp add: corpo_item_def validacao_item_defs)

text \<open>
  An Armor with strength 11 and defense 5: the only error is the one of the range, on
  \<open>forca\<close>; there is no error of type consistency.
\<close>

theorem consistencia_de_tipo_counterexample:
  "validar_ItemMagicoCriar (corpo_item ARMADURA 11 5) = Inl [(''forca'', OutOfRange)]
   \<and> (''forca'', TypeMismatch) \<notin> set [(''forca'', OutOfRange)]"
  by (simp add: corpo_item_def validacao_item_defs)

section \<open>Validation of an item: what an accepted item satisfies\<close>

text \<open>
  The two constraints of the item table on the type never refuse a row: the stored name of
  a member is not one of the two values they compare it with. What the table tests of a
  row is the two ranges and that its strength or its defense is positive.
\<close>

lemma check_item_efetivo:
  "check_item i =
     ((i_forca i \<ge> 0 \<and> i_forca i \<le> 10)
      \<and> (i_defesa i \<ge> 0 \<and> i_defesa i \<le> 10)
      \<and> (i_forca i > 0 \<or> i_defesa i > 0))"
  by (cases "i_tipo i") (simp_all add: check_item_def)

text \<open>
  A body without \<open>defesa\<close> takes the default 0 with no validator run: with strength 0 it
  validates, and it is the check constraint of the table that refuses the row.
\<close>

lemma defesa_omitida:
  "validar_ItemMagicoCriar
     \<lparr>bi_nome = Some ''Olho'', bi_tipo = Some AMULETO, bi_forca = Some 0, bi_defesa = None\<rparr>
     = Inr \<lparr>ic_nome = ''Olho'', ic_tipo = AMULETO, ic_forca = 0, ic_defesa = 0\<rparr>
   \<and> criar_item_magico s n
     \<lparr>bi_nome = Some ''Olho'', bi_tipo = Some AMULETO, bi_forca = Some 0, bi_defesa = None\<rparr>
     = Inl IntegrityError"
  by (simp add: validacao_item_defs criar_item_magico_def check_item_efetivo)




section \<open>Validation: the names\<close>

text \<open>
  Claim C9, as amended. A character that the validation accepts has the name and the
  adventurer name that the body gives, and an accepted item has the name that its body
  gives: a body without one of these fields is refused, by the validation and so by the
  creation, with the error of the missing field. Nothing is required of the text itself.
\<close>

theorem nomes_presentes:
  "(validar_PersonagemCriar corpo = Inr p \<longrightarrow>
      bp_nome corpo = Some (pc_nome p) \<and> bp_nome_aventureiro corpo = Some (pc_nome_aventureiro p))
   \<and> (validar_ItemMagicoCriar corpo_i = Inr item \<longrightarrow> bi_nome corpo_i = Some (ic_nome item))
   \<and> (bp_nome corpo = None \<longrightarrow>
        (\<exists>es. validar_PersonagemCriar corpo = Inl es \<and> (''nome'', Missing) \<in> set es
              \<and> criar_personagem s n corpo = Inl (ValidationError es)))
   \<and> (bp_nome_aventureiro corpo = None \<longrightarrow>
        (\<exists>es. validar_PersonagemCriar corpo = Inl es \<and> (''nome_aventureiro'', Missing) \<in> set es
              \<and> criar_personagem s n corpo = Inl (ValidationError es)))
   \<and> (bi_nome corpo_i = None \<longrightarrow>
        (\<exists>es. validar_ItemMagicoCriar corpo_i = Inl es \<and> (''nome'', Missing) \<in> set es
              \<and> criar_item_magico s n corpo_i = Inl (ValidationError es)))"
proof (intro conjI impI)
  assume "validar_PersonagemCriar corpo = Inr p"
  then show "bp_nome corpo = Some (pc_nome p)"
    "bp_nome_aventureiro corpo = Some (pc_nome_aventureiro p)"
    by (auto simp: validar_PersonagemCriar_def obrigatorio_def Let_def split: sum.splits option.splits)
next
  assume "validar_ItemMagicoCriar corpo_i = Inr item"
  then show "bi_nome corpo_i = Some (ic_nome item)"
    by (auto simp: validar_ItemMagicoCriar_def obrigatorio_def Let_def split: sum.splits option.splits)
next
  assume "bp_nome corpo = None"
  then show "\<exists>es. validar_PersonagemCriar corpo = Inl es \<and> (''nome'', Missing) \<in> set es
              \<and> criar_personagem s n corpo = Inl (ValidationError es)"
    by (simp add: validar_PersonagemCriar_def obrigatorio_def erros_def Let_def criar_personagem_def)
next
  assume "bp_nome_aventureiro corpo = None"
  then show "\<exists>es. validar_PersonagemCriar corpo = Inl es \<and> (''nome_aventureiro'', Missing) \<in> set es
              \<and> criar_personagem s n corpo = Inl (ValidationError es)"
    by (simp add: validar_PersonagemCriar_def obrigatorio_def erros_def Let_def criar_personagem_def
             split: sum.splits)
next
  assume "bi_nome corpo_i = None"
  then show "\<exists>es. validar_ItemMagicoCriar corpo_i = Inl es \<and> (''nome'', Missing) \<in> set es
              \<and> criar_item_magico s n corpo_i = Inl (ValidationError es)"
    by (simp add: validar_ItemMagicoCriar_def obrigatorio_def erros_def Let_def criar_item_magico_def)
qed

theorem nomes_presentes_witness:
  "validar_PersonagemCriar (corpo_heroi 6 4) =
     Inr \<lparr>pc_nome = ''Ana'', pc_nome_aventureiro = ''Lobo'', pc_classe = MAGO, pc_level = 1,
          pc_forca_base = 6, pc_defesa_base = 4\<rparr>
   \<and> bp_nome (corpo_heroi 6 4) = Some ''Ana'' \<and> bp_nome_aventureiro (corpo_heroi 6 4) = Some ''Lobo''
   \<and> validar_ItemMagicoCriar (corpo_item AMULETO 1 1) =
     Inr \<lparr>ic_nome = ''Olho'', ic_tipo = AMULETO, ic_forca = 1, ic_defesa = 1\<rparr>
   \<and> bi_nome (corpo_item AMULETO 1 1) = Some ''Olho''
   \<and> criar_personagem db_vazio 1 ((corpo_heroi 6 4)\<lparr>bp_nome := None\<rparr>)
       = Inl (ValidationError [(''nome'', Missing)])
   \<and> criar_personagem db_vazio 1 ((corpo_heroi 6 4)\<lparr>bp_nome_aventureiro := None\<rparr>)
       = Inl (ValidationError [(''nome_aventureiro'', Missing)])
   \<and> criar_item_magico db_vazio 1 ((corpo_item AMULETO 1 1)\<lparr>bi_nome := None\<rparr>)
       = Inl (ValidationError [(''nome'', Missing)])"
  using nomes_presentes [of "corpo_heroi 6 4"
          "\<lparr>pc_nome = ''Ana'', pc_nome_aventureiro = ''Lobo'', pc_classe = MAGO, pc_level = 1,
            pc_forca_base = 6, pc_defesa_base = 4\<rparr>"
          "corpo_item AMULETO 1 1"
          "\<lparr>ic_nome = ''Olho'', ic_tipo = AMULETO, ic_forca = 1, ic_defesa = 1\<rparr>" db_vazio 1]
        nomes_presentes [of "(corpo_heroi 6 4)\<lparr>bp_nome := None\<rparr>" undefined
          "(corpo_item AMULETO 1 1)\<lparr>bi_nome := None\<rparr>" undefined db_vazio 1]
        nomes_presentes [of "(corpo_heroi 6 4)\<lparr>bp_nome_aventureiro := None\<rparr>" undefined
          "(corpo_item AMULETO 1 1)\<lparr>bi_nome := None\<rparr>" undefined db_vazio 1]
  by (simp add: corpo_heroi_def corpo_item_def validacao_personagem_defs validacao_item_defs
        criar_personagem_def criar_item_magico_def)

text \<open>
  A character whose two names are the empty string, and an item whose name is: both
  validate and both are created.
\<close>

theorem nomes_vazios_counterexample:
  "criar_personagem db_vazio 1
     \<lparr>bp_nome = Some [], bp_nome_aventureiro = Some [], bp_classe = Some MAGO,
      bp_level = Some 1, bp_forca_base = Some 6, bp_defesa_base = Some 4\<rparr>
   = Inr (\<lparr>personagens = [\<lparr>p_id = 1, p_nome = [], p_nome_aventureiro = [], p_classe = MAGO,
                            p_level = 1, p_forca_base = 6, p_defesa_base = 4\<rparr>],
           itens_magicos = []\<rparr>,
          \<lparr>p_id = 1, p_nome = [], p_nome_aventureiro = [], p_classe = MAGO,
           p_level = 1, p_forca_base = 6, p_defesa_base = 4\<rparr>)
   \<and> criar_item_magico db_vazio 1
     \<lparr>bi_nome = Some [], bi_tipo = Some ARMA, bi_forca = Some 5, bi_defesa = Some 0\<rparr>
   = Inr (\<lparr>personagens = [],
           itens_magicos = [\<lparr>i_id = 1, i_nome = [], i_tipo = ARMA, i_forca = 5, i_defesa = 0,
                             i_personagem_id = None\<rparr>]\<rparr>,
          \<lparr>i_id = 1, i_nome = [], i_tipo = ARMA, i_forca = 5, i_defesa = 0,
           i_personagem_id = None\<rparr>)"
  by (simp add: validacao_personagem_defs validacao_item_defs criar_personagem_def
        criar_item_magico_def check_personagem_def check_item_def db_vazio_def)

section \<open>Lemmas on the item table\<close>

lemma find_Some_D: "find P xs = Some x \<Longrightarrow> x \<in> set xs \<and> P x"
  by (induction xs) (auto split: if_splits)

lemma find_None_D: "find P xs = None \<Longrightarrow> x \<in> set xs \<Longrightarrow> \<not> P x"
  by (induction xs) (auto split: if_splits)

lemma inv_vazio: "invariante db_vazio"
  by (simp add: invariante_def amuleto_unico_def db_vazio_def)

lemma criar_personagem_itens:
  "criar_personagem s n corpo = Inr (s', p) \<Longrightarrow> itens_magicos s' = itens_magicos s"
  by (auto simp: criar_personagem_def Let_def split: sum.splits if_splits)

lemma atualizar_itens:
  "atualizar_nome_aventureiro s pid dados = Inr (s', p) \<Longrightarrow> itens_magicos s' = itens_magicos s"
  by (auto simp: atualizar_nome_aventureiro_def split: option.splits)

lemma remover_personagem_itens:
  "remover_personagem s pid = Inr s' \<Longrightarrow>
   itens_magicos s' = map (\<lambda>i. if i_personagem_id i = Some pid then i\<lparr>i_personagem_id := None\<rparr> else i) (itens_magicos s)"
  by (auto simp: remover_personagem_def split: option.splits dest: find_Some_D)

lemma criar_item_itens:
  "criar_item_magico s n corpo = Inr (s', i) \<Longrightarrow>
   itens_magicos s' = itens_magicos s @ [i] \<and> i_id i = n \<and> i_personagem_id i = None
   \<and> n \<notin> set (map i_id (itens_magicos s))"
  by (auto simp: criar_item_magico_def Let_def split: sum.splits if_splits)

lemma remover_item_itens:
  "remover_item_do_personagem s pid iid = Inr s' \<Longrightarrow>
   itens_magicos s' = map (\<lambda>i. if i_id i = iid then i\<lparr>i_personagem_id := None\<rparr> else i) (itens_magicos s)"
  by (auto simp: remover_item_do_personagem_def split: option.splits dest: find_Some_D)

lemma amuleto_unicoD:
  assumes "amuleto_unico xs" "i \<in> set xs" "j \<in> set xs" "i_tipo i = AMULETO" "i_tipo j = AMULETO"
    "i_personagem_id i = Some c" "i_personagem_id j = Some c"
  shows "i_id i = i_id j"
  using assms(1)[unfolded amuleto_unico_def, rule_format, of i j] assms(2-) by simp

lemma map_id_upd: "map i_id (map (\<lambda>i. if P i then i\<lparr>i_personagem_id := v\<rparr> else i) xs) = map i_id xs"
  by (induction xs) auto

lemma amuleto_unico_limpar:
  assumes "amuleto_unico xs"
  shows "amuleto_unico (map (\<lambda>i. if P i then i\<lparr>i_personagem_id := None\<rparr> else i) xs)"
  unfolding amuleto_unico_def
proof (intro ballI impI)
  fix i' j'
  let ?f = "\<lambda>i. if P i then i\<lparr>i_personagem_id := None\<rparr> else i"
  assume i': "i' \<in> set (map ?f xs)" and j': "j' \<in> set (map ?f xs)"
    and h: "i_tipo i' = AMULETO \<and> i_tipo j' = AMULETO \<and> i_personagem_id i' \<noteq> None
            \<and> i_personagem_id i' = i_personagem_id j'"
  from i' obtain i where i: "i \<in> set xs" "i' = ?f i" by auto
  from j' obtain j where j: "j \<in> set xs" "j' = ?f j" by auto
  from h i have "i' = i" by (auto split: if_splits)
  moreover from h j have "j' = j" by (auto split: if_splits)
  ultimately show "i_id i' = i_id j'" using assms i j h unfolding amuleto_unico_def by blast
qed

lemma amuleto_unico_novo:
  assumes "amuleto_unico xs" "i_personagem_id x = None"
  shows "amuleto_unico (xs @ [x])"
  unfolding amuleto_unico_def
proof (intro ballI impI)
  fix i j
  assume i: "i \<in> set (xs @ [x])" and j: "j \<in> set (xs @ [x])"
    and h: "i_tipo i = AMULETO \<and> i_tipo j = AMULETO \<and> i_personagem_id i \<noteq> None
            \<and> i_personagem_id i = i_personagem_id j"
  from h assms(2) have "i \<noteq> x" "j \<noteq> x" by auto
  with i j have "i \<in> set xs" "j \<in> set xs" by auto
  with assms(1) h show "i_id i = i_id j" unfolding amuleto_unico_def by blast
qed

lemma amuleto_unico_atribuir:
  assumes a: "amuleto_unico xs"
    and nt: "\<And>b. i_tipo it = AMULETO \<Longrightarrow> b \<in> set xs \<Longrightarrow> i_personagem_id b = Some pid
               \<Longrightarrow> i_tipo b = AMULETO \<Longrightarrow> i_id b = i_id it"
    and it: "it \<in> set xs" and d: "distinct (map i_id xs)"
  shows "amuleto_unico (map (\<lambda>i. if i_id i = i_id it then i\<lparr>i_personagem_id := Some pid\<rparr> else i) xs)"
  unfolding amuleto_unico_def
proof (intro ballI impI)
  fix i' j'
  let ?f = "\<lambda>i. if i_id i = i_id it then i\<lparr>i_personagem_id := Some pid\<rparr> else i"
  assume i': "i' \<in> set (map ?f xs)" and j': "j' \<in> set (map ?f xs)"
    and h: "i_tipo i' = AMULETO \<and> i_tipo j' = AMULETO \<and> i_personagem_id i' \<noteq> None
            \<and> i_personagem_id i' = i_personagem_id j'"
  from i' obtain i where i: "i \<in> set xs" "i' = ?f i" by (auto simp only: set_map)
  from j' obtain j where j: "j \<in> set xs" "j' = ?f j" by (auto simp only: set_map)
  have fi: "i_id i' = i_id i" "i_tipo i' = i_tipo i"
    "i_personagem_id i' = (if i_id i = i_id it then Some pid else i_personagem_id i)"
    using i(2) by simp_all
  have fj: "i_id j' = i_id j" "i_tipo j' = i_tipo j"
    "i_personagem_id j' = (if i_id j = i_id it then Some pid else i_personagem_id j)"
    using j(2) by simp_all
  have same: "\<And>k. k \<in> set xs \<Longrightarrow> i_id k = i_id it \<Longrightarrow> k = it"
    using d it by (meson distinct_map inj_onD)
  have ti: "i_tipo i = AMULETO" and tj: "i_tipo j = AMULETO" using h fi fj by simp_all
  have oo: "(if i_id i = i_id it then Some pid else i_personagem_id i)
          = (if i_id j = i_id it then Some pid else i_personagem_id j)"
    using h fi(3) fj(3) by simp
  show "i_id i' = i_id j'"
  proof (cases "i_id i = i_id it")
    case True
    note ci = True
    show ?thesis
    proof (cases "i_id j = i_id it")
      case True
      then show ?thesis using ci fi fj by simp
    next
      case False
      have "i = it" using same i(1) ci by blast
      then have "i_tipo it = AMULETO" using ti by simp
      moreover have "i_personagem_id j = Some pid" using oo ci False by simp
      ultimately have "i_id j = i_id it" using nt j(1) tj by blast
      then show ?thesis using False by simp
    qed
  next
    case False
    note ci = False
    show ?thesis
    proof (cases "i_id j = i_id it")
      case True
      have "j = it" using same j(1) True by blast
      then have "i_tipo it = AMULETO" using tj by simp
      moreover have "i_personagem_id i = Some pid" using oo ci True by simp
      ultimately have "i_id i = i_id it" using nt i(1) ti by blast
      then show ?thesis using ci by simp
    next
      case False
      have "i_personagem_id i = i_personagem_id j" using oo ci False by simp
      moreover have "i_personagem_id i' = i_personagem_id i" using fi(3) ci by simp
      with h have "i_personagem_id i \<noteq> None" by metis
      ultimately have "i_id i = i_id j" using a i(1) j(1) ti tj unfolding amuleto_unico_def by blast
      then show ?thesis using fi fj by simp
    qed
  qed
qed


lemma adicionar_achados:
  assumes p: "find (\<lambda>p. p_id p = pid) (personagens s) = Some p"
    and it: "find (\<lambda>i. i_id i = item_id d) (itens_magicos s) = Some it"
  shows "adicionar_item_personagem s pid (Some d) =
     (if i_personagem_id it \<noteq> None \<and> i_personagem_id it \<noteq> Some pid then Inl AlreadyOwned
      else if i_tipo it = AMULETO
              \<and> (case find (\<lambda>i. i_personagem_id i = Some pid \<and> i_tipo i = AMULETO) (itens_magicos s) of
                    None \<Rightarrow> False | Some a \<Rightarrow> i_id a \<noteq> i_id it)
      then Inl AmuletConflict
      else Inr (s\<lparr>itens_magicos :=
                   map (\<lambda>i. if i_id i = i_id it then i\<lparr>i_personagem_id := Some pid\<rparr> else i)
                       (itens_magicos s)\<rparr>, p))"
proof -
  have "p_id p = pid" using find_Some_D[OF p] by simp
  then show ?thesis using p it by (simp add: adicionar_item_personagem_def)
qed

lemma adicionar_Inr_E:
  assumes ok: "adicionar_item_personagem s pid dados = Inr (s', p)"
  obtains d it where "dados = Some d"
    and "find (\<lambda>p. p_id p = pid) (personagens s) = Some p"
    and "find (\<lambda>i. i_id i = item_id d) (itens_magicos s) = Some it"
    and "i_personagem_id it = None \<or> i_personagem_id it = Some pid"
    and "i_tipo it = AMULETO \<longrightarrow>
                (case find (\<lambda>i. i_personagem_id i = Some pid \<and> i_tipo i = AMULETO) (itens_magicos s) of
                   None \<Rightarrow> True | Some a \<Rightarrow> i_id a = i_id it)"
    and "s' = s\<lparr>itens_magicos :=
                      map (\<lambda>i. if i_id i = i_id it then i\<lparr>i_personagem_id := Some pid\<rparr> else i)
                          (itens_magicos s)\<rparr>"
proof -
  from ok obtain p0 where p0: "find (\<lambda>p. p_id p = pid) (personagens s) = Some p0"
    by (cases "find (\<lambda>p. p_id p = pid) (personagens s)") (simp_all add: adicionar_item_personagem_def)
  from ok p0 obtain d where d: "dados = Some d"
    by (cases dados) (simp_all add: adicionar_item_personagem_def)
  from ok p0 d obtain it where it: "find (\<lambda>i. i_id i = item_id d) (itens_magicos s) = Some it"
    by (cases "find (\<lambda>i. i_id i = item_id d) (itens_magicos s)")
       (simp_all add: adicionar_item_personagem_def)
  note eq = ok[unfolded d adicionar_achados[OF p0 it]]
  have f1: "i_personagem_id it = None \<or> i_personagem_id it = Some pid"
    using eq by (simp split: if_splits)
  have f2: "i_tipo it = AMULETO \<longrightarrow>
                (case find (\<lambda>i. i_personagem_id i = Some pid \<and> i_tipo i = AMULETO) (itens_magicos s) of
                   None \<Rightarrow> True | Some a \<Rightarrow> i_id a = i_id it)"
    using eq by (simp split: if_splits option.splits)
  have f3: "s' = s\<lparr>itens_magicos :=
                      map (\<lambda>i. if i_id i = i_id it then i\<lparr>i_personagem_id := Some pid\<rparr> else i)
                          (itens_magicos s)\<rparr>" and f4: "p0 = p"
    using eq by (simp_all split: if_splits)
  show thesis
    by (rule that[OF d p0[unfolded f4] it f1 f2 f3])
qed

lemma inv_adicionar:
  assumes inv: "invariante s" and ok: "adicionar_item_personagem s pid dados = Inr (s', p)"
  shows "invariante s'"
proof -
  from ok obtain d it where "dados = Some d"
    and "find (\<lambda>p. p_id p = pid) (personagens s) = Some p"
    and it: "find (\<lambda>i. i_id i = item_id d) (itens_magicos s) = Some it"
    and "i_personagem_id it = None \<or> i_personagem_id it = Some pid"
    and am: "i_tipo it = AMULETO \<longrightarrow>
                (case find (\<lambda>i. i_personagem_id i = Some pid \<and> i_tipo i = AMULETO) (itens_magicos s) of
                   None \<Rightarrow> True | Some a \<Rightarrow> i_id a = i_id it)"
    and s': "s' = s\<lparr>itens_magicos :=
                      map (\<lambda>i. if i_id i = i_id it then i\<lparr>i_personagem_id := Some pid\<rparr> else i)
                          (itens_magicos s)\<rparr>"
    by (rule adicionar_Inr_E) (rule that)
  from inv have d: "distinct (map i_id (itens_magicos s))" and a: "amuleto_unico (itens_magicos s)"
    by (simp_all add: invariante_def)
  have mem: "it \<in> set (itens_magicos s)" using it by (simp add: find_Some_D)
  have nt: "i_id b = i_id it"
    if t: "i_tipo it = AMULETO" and b: "b \<in> set (itens_magicos s)"
      and ob: "i_personagem_id b = Some pid" and tb: "i_tipo b = AMULETO" for b
  proof (cases "find (\<lambda>i. i_personagem_id i = Some pid \<and> i_tipo i = AMULETO) (itens_magicos s)")
    case None
    from find_None_D[OF None b] ob tb show ?thesis by simp
  next
    case (Some a0)
    with am t have e: "i_id a0 = i_id it" by simp
    from find_Some_D[OF Some] have "a0 \<in> set (itens_magicos s)"
      "i_personagem_id a0 = Some pid" "i_tipo a0 = AMULETO" by simp_all
    with a b ob tb have "i_id a0 = i_id b" by (blast intro: amuleto_unicoD)
    with e show ?thesis by simp
  qed
  have "amuleto_unico (map (\<lambda>i. if i_id i = i_id it then i\<lparr>i_personagem_id := Some pid\<rparr> else i)
                (itens_magicos s))"
    using a _ mem d
  proof (rule amuleto_unico_atribuir)
    fix b
    assume "i_tipo it = AMULETO" "b \<in> set (itens_magicos s)"
      "i_personagem_id b = Some pid" "i_tipo b = AMULETO"
    then show "i_id b = i_id it" by (rule nt)
  qed
  then have "amuleto_unico (itens_magicos s')" by (simp add: s')
  moreover have "distinct (map i_id (itens_magicos s'))"
    unfolding s' using d by (simp add: map_id_upd del: map_map)
  ultimately show ?thesis by (simp add: invariante_def)
qed

lemma inv_criar_p: "invariante s \<Longrightarrow> criar_personagem s n corpo = Inr (s', p) \<Longrightarrow> invariante s'"
  by (simp add: invariante_def criar_personagem_itens)

lemma inv_atualizar: "invariante s \<Longrightarrow> atualizar_nome_aventureiro s pid dados = Inr (s', p) \<Longrightarrow> invariante s'"
  by (simp add: invariante_def atualizar_itens)

lemma inv_remover_p:
  assumes "invariante s" "remover_personagem s pid = Inr s'" shows "invariante s'"
proof -
  note e = remover_personagem_itens[OF assms(2)]
  from assms(1) have "amuleto_unico (itens_magicos s)" "distinct (map i_id (itens_magicos s))"
    by (simp_all add: invariante_def)
  then have "amuleto_unico (itens_magicos s')" "distinct (map i_id (itens_magicos s'))"
    unfolding e by (simp_all add: amuleto_unico_limpar map_id_upd del: map_map)
  then show ?thesis by (simp add: invariante_def)
qed

lemma inv_remover_i:
  assumes "invariante s" "remover_item_do_personagem s pid iid = Inr s'" shows "invariante s'"
proof -
  note e = remover_item_itens[OF assms(2)]
  from assms(1) have "amuleto_unico (itens_magicos s)" "distinct (map i_id (itens_magicos s))"
    by (simp_all add: invariante_def)
  then have "amuleto_unico (itens_magicos s')" "distinct (map i_id (itens_magicos s'))"
    unfolding e by (simp_all add: amuleto_unico_limpar map_id_upd del: map_map)
  then show ?thesis by (simp add: invariante_def)
qed

lemma inv_criar_i:
  assumes "invariante s" "criar_item_magico s n corpo = Inr (s', i)" shows "invariante s'"
proof -
  note e = criar_item_itens[OF assms(2)]
  from assms(1) have "amuleto_unico (itens_magicos s)" "distinct (map i_id (itens_magicos s))"
    by (simp_all add: invariante_def)
  then have "amuleto_unico (itens_magicos s')" "distinct (map i_id (itens_magicos s'))"
    using e by (simp_all add: amuleto_unico_novo)
  then show ?thesis by (simp add: invariante_def)
qed

lemma alcancavel_invariante: "alcancavel s \<Longrightarrow> invariante s"
proof (induction rule: alcancavel.induct)
  case inicio
  show ?case by (rule inv_vazio)
next
  case (criar_p s n corpo s' p)
  then show ?case by (blast intro: inv_criar_p)
next
  case (atualizar s pid dados s' p)
  then show ?case by (blast intro: inv_atualizar)
next
  case (remover_p s pid s')
  then show ?case by (blast intro: inv_remover_p)
next
  case (criar_i s n corpo_i s' i)
  then show ?case by (blast intro: inv_criar_i)
next
  case (adicionar s pid dados_i s' p)
  then show ?case by (blast intro: inv_adicionar)
next
  case (remover_i s pid iid s')
  then show ?case by (blast intro: inv_remover_i)
qed

lemma length_le_1:
  assumes "distinct (map f xs)" "\<And>x y. x \<in> set xs \<Longrightarrow> y \<in> set xs \<Longrightarrow> f x = f y"
  shows "length xs \<le> 1"
proof (cases xs)
  case Nil
  then show ?thesis by simp
next
  case (Cons x ys)
  show ?thesis
  proof (cases ys)
    case Nil
    with Cons show ?thesis by simp
  next
    case (Cons y zs)
    with \<open>xs = x # ys\<close> assms(2)[of x y] assms(1) show ?thesis by simp
  qed
qed

lemma invariante_amuletos:
  assumes "invariante s" shows "length (amuletos_de s c) \<le> 1"
proof (rule length_le_1[where f = i_id])
  from assms have "distinct (map i_id (itens_magicos s))" by (simp add: invariante_def)
  then show "distinct (map i_id (amuletos_de s c))"
    unfolding amuletos_de_def by (rule distinct_map_filter)
next
  fix x y assume "x \<in> set (amuletos_de s c)" "y \<in> set (amuletos_de s c)"
  then have "x \<in> set (itens_magicos s)" "y \<in> set (itens_magicos s)"
    "i_tipo x = AMULETO" "i_tipo y = AMULETO"
    "i_personagem_id x = Some c" "i_personagem_id y = Some c"
    by (simp_all add: amuletos_de_def)
  moreover from assms have "amuleto_unico (itens_magicos s)" by (simp add: invariante_def)
  ultimately show "i_id x = i_id y" by (blast intro: amuleto_unicoD)
qed


lemma alcancavel_exemplo: "alcancavel estado_exemplo"
proof -
  let ?p1 = "\<lparr>personagens = [heroi 1], itens_magicos = []\<rparr>"
  let ?p2 = "\<lparr>personagens = [heroi 1, heroi 2], itens_magicos = []\<rparr>"
  let ?i1 = "\<lparr>personagens = [heroi 1, heroi 2], itens_magicos = [amuleto 1 None]\<rparr>"
  let ?i2 = "\<lparr>personagens = [heroi 1, heroi 2],
             itens_magicos = [amuleto 1 None, amuleto 2 None]\<rparr>"
  let ?i3 = "\<lparr>personagens = [heroi 1, heroi 2],
             itens_magicos = [amuleto 1 None, amuleto 2 None, amuleto 3 None]\<rparr>"
  let ?a1 = "\<lparr>personagens = [heroi 1, heroi 2],
             itens_magicos = [amuleto 1 (Some 1), amuleto 2 None, amuleto 3 None]\<rparr>"
  have "criar_personagem db_vazio 1 (corpo_heroi 6 4) = Inr (?p1, heroi 1)"
    by (simp add: criar_personagem_def validar_heroi check_personagem_def heroi_def db_vazio_def Let_def)
  with inicio have s1: "alcancavel ?p1" by (rule criar_p)
  have "criar_personagem ?p1 2 (corpo_heroi 6 4) = Inr (?p2, heroi 2)"
    by (simp add: criar_personagem_def validar_heroi check_personagem_def heroi_def Let_def)
  with s1 have s2: "alcancavel ?p2" by (rule criar_p)
  have "criar_item_magico ?p2 1 (corpo_item AMULETO 1 1) = Inr (?i1, amuleto 1 None)"
    by (simp add: criar_item_magico_def validar_amuleto check_item_def amuleto_def Let_def)
  with s2 have s3: "alcancavel ?i1" by (rule criar_i)
  have "criar_item_magico ?i1 2 (corpo_item AMULETO 1 1) = Inr (?i2, amuleto 2 None)"
    by (simp add: criar_item_magico_def validar_amuleto check_item_def amuleto_def Let_def)
  with s3 have s4: "alcancavel ?i2" by (rule criar_i)
  have "criar_item_magico ?i2 3 (corpo_item AMULETO 1 1) = Inr (?i3, amuleto 3 None)"
    by (simp add: criar_item_magico_def validar_amuleto check_item_def amuleto_def Let_def)
  with s4 have s5: "alcancavel ?i3" by (rule criar_i)
  have "adicionar_item_personagem ?i3 1 (Some \<lparr>item_id = 1\<rparr>) = Inr (?a1, heroi 1)"
    by (simp add: adicionar_item_personagem_def amuleto_def heroi_def)
  with s5 have s6: "alcancavel ?a1" by (rule adicionar)
  have "adicionar_item_personagem ?a1 2 (Some \<lparr>item_id = 2\<rparr>) = Inr (estado_exemplo, heroi 2)"
    by (simp add: adicionar_item_personagem_def amuleto_def heroi_def estado_exemplo_def)
  with s6 show ?thesis by (rule adicionar)
qed

section \<open>Lemmas on the routes\<close>

lemma find_map_inv:
  assumes "\<And>x. P (f x) = P x"
  shows "find P (map f xs) = map_option f (find P xs)"
  using assms by (induction xs) simp_all

lemma find_id_distinct:
  assumes d: "distinct (map i_id xs)" and f: "find (\<lambda>i. i_id i = iid) xs = Some it"
  shows "find (\<lambda>i. i_id i = iid \<and> Q i) xs = (if Q it then Some it else None)"
proof -
  from find_Some_D[OF f] have it: "it \<in> set xs" "i_id it = iid" by simp_all
  have same: "x = it" if "x \<in> set xs" "i_id x = iid" for x
    using d it that by (metis distinct_map inj_onD)
  show ?thesis
  proof (cases "find (\<lambda>i. i_id i = iid \<and> Q i) xs")
    case None
    from find_None_D[OF None it(1)] it(2) show ?thesis using None by simp
  next
    case (Some x)
    from find_Some_D[OF Some] have "x \<in> set xs" "i_id x = iid" "Q x" by simp_all
    with same[of x] show ?thesis using Some by simp
  qed
qed

lemma map_atribuir_mesmo_dono:
  assumes d: "distinct (map i_id xs)" and it: "it \<in> set xs" and o: "i_personagem_id it = Some pid"
  shows "map (\<lambda>i. if i_id i = i_id it then i\<lparr>i_personagem_id := Some pid\<rparr> else i) xs = xs"
proof (rule map_idI)
  fix x assume x: "x \<in> set xs"
  show "(if i_id x = i_id it then x\<lparr>i_personagem_id := Some pid\<rparr> else x) = x"
  proof (cases "i_id x = i_id it")
    case True
    then have "x = it" using d it x by (metis distinct_map inj_onD)
    then show ?thesis using o by simp
  next
    case False
    then show ?thesis by simp
  qed
qed

section \<open>Attaching an item\<close>

text \<open>
  Claim C2. In a reachable state, for a character and an item that exist,
  \<open>adicionar_item_personagem\<close> fails with \<open>AlreadyOwned\<close> exactly when the item has
  an owner and the owner is another character. Attaching an item to the character that
  already owns it succeeds and returns the state as it was, for every type of item, the
  Amulet included.
\<close>

theorem readicionar_sem_efeito:
  "alcancavel s \<and> find (\<lambda>p. p_id p = pid) (personagens s) = Some p
   \<and> find (\<lambda>i. i_id i = iid) (itens_magicos s) = Some it \<longrightarrow>
     ((adicionar_item_personagem s pid (Some \<lparr>item_id = iid\<rparr>) = Inl AlreadyOwned)
        = (\<exists>dono. i_personagem_id it = Some dono \<and> dono \<noteq> pid))
     \<and> (i_personagem_id it = Some pid \<longrightarrow>
          adicionar_item_personagem s pid (Some \<lparr>item_id = iid\<rparr>) = Inr (s, p))"
proof (intro impI, elim conjE)
  assume r: "alcancavel s" and p: "find (\<lambda>p. p_id p = pid) (personagens s) = Some p"
    and it: "find (\<lambda>i. i_id i = iid) (itens_magicos s) = Some it"
  have it': "find (\<lambda>i. i_id i = item_id \<lparr>item_id = iid\<rparr>) (itens_magicos s) = Some it"
    using it by simp
  note eq = adicionar_achados[OF p it']
  from alcancavel_invariante[OF r] have d: "distinct (map i_id (itens_magicos s))"
    and a: "amuleto_unico (itens_magicos s)" by (simp_all add: invariante_def)
  have mem: "it \<in> set (itens_magicos s)" using find_Some_D[OF it] by simp
  have one: "(adicionar_item_personagem s pid (Some \<lparr>item_id = iid\<rparr>) = Inl AlreadyOwned)
        = (\<exists>dono. i_personagem_id it = Some dono \<and> dono \<noteq> pid)"
    unfolding eq by (cases "i_personagem_id it") auto
  have two: "adicionar_item_personagem s pid (Some \<lparr>item_id = iid\<rparr>) = Inr (s, p)"
    if o: "i_personagem_id it = Some pid"
  proof -
    have noconf: "\<not> (i_tipo it = AMULETO
              \<and> (case find (\<lambda>i. i_personagem_id i = Some pid \<and> i_tipo i = AMULETO) (itens_magicos s) of
                    None \<Rightarrow> False | Some a \<Rightarrow> i_id a \<noteq> i_id it))"
    proof (cases "find (\<lambda>i. i_personagem_id i = Some pid \<and> i_tipo i = AMULETO) (itens_magicos s)")
      case None
      then show ?thesis by simp
    next
      case (Some a0)
      from find_Some_D[OF Some] have a0: "a0 \<in> set (itens_magicos s)"
        "i_personagem_id a0 = Some pid" "i_tipo a0 = AMULETO" by simp_all
      have "i_id a0 = i_id it" if "i_tipo it = AMULETO"
        using amuleto_unicoD[OF a a0(1) mem a0(3) that a0(2) o] .
      then show ?thesis using Some by auto
    qed
    have "s\<lparr>itens_magicos :=
             map (\<lambda>i. if i_id i = i_id it then i\<lparr>i_personagem_id := Some pid\<rparr> else i)
                 (itens_magicos s)\<rparr> = s"
      using map_atribuir_mesmo_dono[OF d mem o] by simp
    then show ?thesis unfolding eq using o noconf by simp
  qed
  from one two show "((adicionar_item_personagem s pid (Some \<lparr>item_id = iid\<rparr>) = Inl AlreadyOwned)
        = (\<exists>dono. i_personagem_id it = Some dono \<and> dono \<noteq> pid))
     \<and> (i_personagem_id it = Some pid \<longrightarrow>
          adicionar_item_personagem s pid (Some \<lparr>item_id = iid\<rparr>) = Inr (s, p))"
    by blast
qed

lemma exemplo_achados:
  "find (\<lambda>p. p_id p = 1) (personagens estado_exemplo) = Some (heroi 1)"
  "find (\<lambda>p. p_id p = 2) (personagens estado_exemplo) = Some (heroi 2)"
  "find (\<lambda>p. p_id p = 99) (personagens estado_exemplo) = None"
  "find (\<lambda>i. i_id i = 1) (itens_magicos estado_exemplo) = Some (amuleto 1 (Some 1))"
  "find (\<lambda>i. i_id i = 2) (itens_magicos estado_exemplo) = Some (amuleto 2 (Some 2))"
  "find (\<lambda>i. i_id i = 3) (itens_magicos estado_exemplo) = Some (amuleto 3 None)"
  by (simp_all add: estado_exemplo_def heroi_def amuleto_def)

theorem readicionar_sem_efeito_witness:
  "alcancavel estado_exemplo
   \<and> find (\<lambda>p. p_id p = 1) (personagens estado_exemplo) = Some (heroi 1)
   \<and> find (\<lambda>i. i_id i = 1) (itens_magicos estado_exemplo) = Some (amuleto 1 (Some 1))
   \<and> i_tipo (amuleto 1 (Some 1)) = AMULETO
   \<and> adicionar_item_personagem estado_exemplo 1 (Some \<lparr>item_id = 1\<rparr>) = Inr (estado_exemplo, heroi 1)
   \<and> find (\<lambda>i. i_id i = 2) (itens_magicos estado_exemplo) = Some (amuleto 2 (Some 2))
   \<and> adicionar_item_personagem estado_exemplo 1 (Some \<lparr>item_id = 2\<rparr>) = Inl AlreadyOwned"
  using readicionar_sem_efeito [of estado_exemplo 1 "heroi 1" 1 "amuleto 1 (Some 1)"]
        readicionar_sem_efeito [of estado_exemplo 1 "heroi 1" 2 "amuleto 2 (Some 2)"]
        alcancavel_exemplo exemplo_achados
  by (simp add: amuleto_def)


section \<open>One Amulet for an owner\<close>

lemma amuletos_alcancavel: "alcancavel s \<Longrightarrow> length (amuletos_de s c) \<le> 1"
  by (rule invariante_amuletos) (rule alcancavel_invariante)

text \<open>
  Claim C1, as amended. In every reachable state an owner has at most one Amulet.
  Attaching an Amulet to a character that has another Amulet fails with
  \<open>AmuletConflict\<close> when the item is not owned by a different character (the test of
  the owner comes first and answers \<open>AlreadyOwned\<close> otherwise). A successful attach,
  detach, creation of a character or of an item, and deletion of a character, from a
  reachable state, each leave at most one Amulet for every owner.
\<close>

theorem amuleto_unico_por_dono:
  "(alcancavel s \<longrightarrow> length (amuletos_de s c) \<le> 1)
   \<and> (alcancavel s \<and> find (\<lambda>p. p_id p = pid) (personagens s) = Some p
        \<and> find (\<lambda>i. i_id i = iid) (itens_magicos s) = Some it \<and> i_tipo it = AMULETO
        \<and> (i_personagem_id it = None \<or> i_personagem_id it = Some pid)
        \<and> a \<in> set (amuletos_de s pid) \<and> i_id a \<noteq> iid
      \<longrightarrow> adicionar_item_personagem s pid (Some \<lparr>item_id = iid\<rparr>) = Inl AmuletConflict)
   \<and> (alcancavel s \<and> adicionar_item_personagem s pid dados = Inr (sa, pa)
      \<longrightarrow> length (amuletos_de sa c) \<le> 1)
   \<and> (alcancavel s \<and> remover_item_do_personagem s pid iid = Inr sb
      \<longrightarrow> length (amuletos_de sb c) \<le> 1)
   \<and> (alcancavel s \<and> criar_personagem s n corpo = Inr (sc, np)
      \<longrightarrow> length (amuletos_de sc c) \<le> 1)
   \<and> (alcancavel s \<and> criar_item_magico s n corpo_i = Inr (sd, ni)
      \<longrightarrow> length (amuletos_de sd c) \<le> 1)
   \<and> (alcancavel s \<and> remover_personagem s pid = Inr se
      \<longrightarrow> length (amuletos_de se c) \<le> 1)"
proof (intro conjI impI)
  assume "alcancavel s"
  then show "length (amuletos_de s c) \<le> 1" by (rule amuletos_alcancavel)
next
  assume h: "alcancavel s \<and> find (\<lambda>p. p_id p = pid) (personagens s) = Some p
        \<and> find (\<lambda>i. i_id i = iid) (itens_magicos s) = Some it \<and> i_tipo it = AMULETO
        \<and> (i_personagem_id it = None \<or> i_personagem_id it = Some pid)
        \<and> a \<in> set (amuletos_de s pid) \<and> i_id a \<noteq> iid"
  then have r: "alcancavel s" and p: "find (\<lambda>p. p_id p = pid) (personagens s) = Some p"
    and it: "find (\<lambda>i. i_id i = iid) (itens_magicos s) = Some it"
    and t: "i_tipo it = AMULETO"
    and o: "i_personagem_id it = None \<or> i_personagem_id it = Some pid"
    and am: "a \<in> set (amuletos_de s pid)" and ne: "i_id a \<noteq> iid"
    by simp_all
  have it': "find (\<lambda>i. i_id i = item_id \<lparr>item_id = iid\<rparr>) (itens_magicos s) = Some it"
    using it by simp
  note eq = adicionar_achados[OF p it']
  from alcancavel_invariante[OF r] have au: "amuleto_unico (itens_magicos s)"
    by (simp add: invariante_def)
  from am have a: "a \<in> set (itens_magicos s)" "i_personagem_id a = Some pid" "i_tipo a = AMULETO"
    by (simp_all add: amuletos_de_def)
  have iid: "i_id it = iid" using find_Some_D[OF it] by simp
  have conf: "(case find (\<lambda>i. i_personagem_id i = Some pid \<and> i_tipo i = AMULETO) (itens_magicos s) of
                    None \<Rightarrow> False | Some a \<Rightarrow> i_id a \<noteq> i_id it)"
  proof (cases "find (\<lambda>i. i_personagem_id i = Some pid \<and> i_tipo i = AMULETO) (itens_magicos s)")
    case None
    from find_None_D[OF None a(1)] a show ?thesis by simp
  next
    case (Some a0)
    from find_Some_D[OF Some] have a0: "a0 \<in> set (itens_magicos s)"
      "i_personagem_id a0 = Some pid" "i_tipo a0 = AMULETO" by simp_all
    have "i_id a0 = i_id a" using amuleto_unicoD[OF au a0(1) a(1) a0(3) a(3) a0(2) a(2)] .
    then show ?thesis using Some ne iid by simp
  qed
  show "adicionar_item_personagem s pid (Some \<lparr>item_id = iid\<rparr>) = Inl AmuletConflict"
    unfolding eq using o t conf by auto
next
  assume "alcancavel s \<and> adicionar_item_personagem s pid dados = Inr (sa, pa)"
  then have "alcancavel sa" by (blast intro: adicionar)
  then show "length (amuletos_de sa c) \<le> 1" by (rule amuletos_alcancavel)
next
  assume "alcancavel s \<and> remover_item_do_personagem s pid iid = Inr sb"
  then have "alcancavel sb" by (blast intro: remover_i)
  then show "length (amuletos_de sb c) \<le> 1" by (rule amuletos_alcancavel)
next
  assume "alcancavel s \<and> criar_personagem s n corpo = Inr (sc, np)"
  then have "alcancavel sc" by (blast intro: criar_p)
  then show "length (amuletos_de sc c) \<le> 1" by (rule amuletos_alcancavel)
next
  assume "alcancavel s \<and> criar_item_magico s n corpo_i = Inr (sd, ni)"
  then have "alcancavel sd" by (blast intro: criar_i)
  then show "length (amuletos_de sd c) \<le> 1" by (rule amuletos_alcancavel)
next
  assume "alcancavel s \<and> remover_personagem s pid = Inr se"
  then have "alcancavel se" by (blast intro: remover_p)
  then show "length (amuletos_de se c) \<le> 1" by (rule amuletos_alcancavel)
qed

lemma exemplo_operacoes:
  "adicionar_item_personagem estado_exemplo 1 (Some \<lparr>item_id = 1\<rparr>) = Inr (estado_exemplo, heroi 1)"
  "remover_item_do_personagem estado_exemplo 1 1 =
     Inr \<lparr>personagens = [heroi 1, heroi 2],
          itens_magicos = [amuleto 1 None, amuleto 2 (Some 2), amuleto 3 None]\<rparr>"
  "criar_personagem estado_exemplo 3 (corpo_heroi 6 4) =
     Inr (\<lparr>personagens = [heroi 1, heroi 2, heroi 3],
           itens_magicos = [amuleto 1 (Some 1), amuleto 2 (Some 2), amuleto 3 None]\<rparr>, heroi 3)"
  "criar_item_magico estado_exemplo 4 (corpo_item AMULETO 1 1) =
     Inr (\<lparr>personagens = [heroi 1, heroi 2],
           itens_magicos = [amuleto 1 (Some 1), amuleto 2 (Some 2), amuleto 3 None,
                            amuleto 4 None]\<rparr>, amuleto 4 None)"
  "remover_personagem estado_exemplo 1 =
     Inr \<lparr>personagens = [heroi 2],
          itens_magicos = [amuleto 1 None, amuleto 2 (Some 2), amuleto 3 None]\<rparr>"
  by (simp_all add: adicionar_item_personagem_def remover_item_do_personagem_def
        criar_personagem_def criar_item_magico_def remover_personagem_def
        validar_heroi validar_amuleto check_personagem_def check_item_def
        estado_exemplo_def heroi_def amuleto_def Let_def)

theorem amuleto_unico_por_dono_witness:
  "alcancavel estado_exemplo
   \<and> amuletos_de estado_exemplo 1 = [amuleto 1 (Some 1)]
   \<and> length (amuletos_de estado_exemplo 1) \<le> 1
   \<and> find (\<lambda>p. p_id p = 1) (personagens estado_exemplo) = Some (heroi 1)
   \<and> find (\<lambda>i. i_id i = 3) (itens_magicos estado_exemplo) = Some (amuleto 3 None)
   \<and> i_tipo (amuleto 3 None) = AMULETO \<and> i_personagem_id (amuleto 3 None) = None
   \<and> amuleto 1 (Some 1) \<in> set (amuletos_de estado_exemplo 1) \<and> i_id (amuleto 1 (Some 1)) \<noteq> 3
   \<and> adicionar_item_personagem estado_exemplo 1 (Some \<lparr>item_id = 3\<rparr>) = Inl AmuletConflict
   \<and> adicionar_item_personagem estado_exemplo 1 (Some \<lparr>item_id = 1\<rparr>) = Inr (estado_exemplo, heroi 1)
   \<and> remover_item_do_personagem estado_exemplo 1 1 =
       Inr \<lparr>personagens = [heroi 1, heroi 2],
            itens_magicos = [amuleto 1 None, amuleto 2 (Some 2), amuleto 3 None]\<rparr>
   \<and> length (amuletos_de \<lparr>personagens = [heroi 1, heroi 2],
            itens_magicos = [amuleto 1 None, amuleto 2 (Some 2), amuleto 3 None]\<rparr> 1) \<le> 1
   \<and> criar_personagem estado_exemplo 3 (corpo_heroi 6 4) =
       Inr (\<lparr>personagens = [heroi 1, heroi 2, heroi 3],
             itens_magicos = [amuleto 1 (Some 1), amuleto 2 (Some 2), amuleto 3 None]\<rparr>, heroi 3)
   \<and> length (amuletos_de \<lparr>personagens = [heroi 1, heroi 2, heroi 3],
             itens_magicos = [amuleto 1 (Some 1), amuleto 2 (Some 2), amuleto 3 None]\<rparr> 1) \<le> 1
   \<and> criar_item_magico estado_exemplo 4 (corpo_item AMULETO 1 1) =
       Inr (\<lparr>personagens = [heroi 1, heroi 2],
             itens_magicos = [amuleto 1 (Some 1), amuleto 2 (Some 2), amuleto 3 None,
                              amuleto 4 None]\<rparr>, amuleto 4 None)
   \<and> length (amuletos_de \<lparr>personagens = [heroi 1, heroi 2],
             itens_magicos = [amuleto 1 (Some 1), amuleto 2 (Some 2), amuleto 3 None,
                              amuleto 4 None]\<rparr> 1) \<le> 1
   \<and> remover_personagem estado_exemplo 1 =
       Inr \<lparr>personagens = [heroi 2],
            itens_magicos = [amuleto 1 None, amuleto 2 (Some 2), amuleto 3 None]\<rparr>
   \<and> length (amuletos_de \<lparr>personagens = [heroi 2],
            itens_magicos = [amuleto 1 None, amuleto 2 (Some 2), amuleto 3 None]\<rparr> 1) \<le> 1"
proof -
  have am: "amuletos_de estado_exemplo 1 = [amuleto 1 (Some 1)]"
    by (simp add: amuletos_de_def estado_exemplo_def amuleto_def)
  note t = amuleto_unico_por_dono
    [where s = estado_exemplo and c = 1 and pid = 1 and p = "heroi 1" and iid = 3
       and it = "amuleto 3 None" and a = "amuleto 1 (Some 1)"]
  note u = amuleto_unico_por_dono
    [where s = estado_exemplo and c = 1 and pid = 1 and iid = 1
       and dados = "Some \<lparr>item_id = 1\<rparr>" and sa = estado_exemplo and pa = "heroi 1"
       and sb = "\<lparr>personagens = [heroi 1, heroi 2],
            itens_magicos = [amuleto 1 None, amuleto 2 (Some 2), amuleto 3 None]\<rparr>"
       and se = "\<lparr>personagens = [heroi 2],
            itens_magicos = [amuleto 1 None, amuleto 2 (Some 2), amuleto 3 None]\<rparr>"]
  note v = amuleto_unico_por_dono
    [where s = estado_exemplo and c = 1 and n = 3 and corpo = "corpo_heroi 6 4"
       and sc = "\<lparr>personagens = [heroi 1, heroi 2, heroi 3],
             itens_magicos = [amuleto 1 (Some 1), amuleto 2 (Some 2), amuleto 3 None]\<rparr>"
       and np = "heroi 3"]
  note w = amuleto_unico_por_dono
    [where s = estado_exemplo and c = 1 and n = 4 and corpo_i = "corpo_item AMULETO 1 1"
       and sd = "\<lparr>personagens = [heroi 1, heroi 2],
             itens_magicos = [amuleto 1 (Some 1), amuleto 2 (Some 2), amuleto 3 None,
                              amuleto 4 None]\<rparr>"
       and ni = "amuleto 4 None"]
  have e3: "i_tipo (amuleto 3 None) = AMULETO" "i_personagem_id (amuleto 3 None) = None"
    "i_id (amuleto 1 (Some 1)) \<noteq> 3"
    by (simp_all add: amuleto_def)
  show ?thesis
    using t u v w alcancavel_exemplo exemplo_achados exemplo_operacoes am e3
    by simp
qed

text \<open>
  Character 1 owns Amulet 1 and Amulet 2 belongs to character 2: attaching Amulet 2 to
  character 1 fails with \<open>AlreadyOwned\<close>, not with \<open>AmuletConflict\<close>.
\<close>

theorem ja_atribuido_counterexample:
  "alcancavel estado_exemplo
   \<and> buscar_personagem estado_exemplo 1 = Inr (heroi 1)
   \<and> buscar_item_magico estado_exemplo 2 = Inr (amuleto 2 (Some 2))
   \<and> i_tipo (amuleto 2 (Some 2)) = AMULETO
   \<and> amuletos_de estado_exemplo 1 = [amuleto 1 (Some 1)]
   \<and> i_id (amuleto 1 (Some 1)) \<noteq> i_id (amuleto 2 (Some 2))
   \<and> adicionar_item_personagem estado_exemplo 1 (Some \<lparr>item_id = 2\<rparr>) = Inl AlreadyOwned
   \<and> adicionar_item_personagem estado_exemplo 1 (Some \<lparr>item_id = 2\<rparr>) \<noteq> Inl AmuletConflict"
proof -
  have "adicionar_item_personagem estado_exemplo 1 (Some \<lparr>item_id = 2\<rparr>) = Inl AlreadyOwned"
    by (simp add: adicionar_item_personagem_def estado_exemplo_def heroi_def amuleto_def)
  then show ?thesis
    using alcancavel_exemplo exemplo_achados
    by (simp add: buscar_personagem_def buscar_item_magico_def amuletos_de_def amuleto_def
          estado_exemplo_def)
qed


section \<open>Deleting a character\<close>

text \<open>
  Claim C5. For a character that exists, \<open>remover_personagem\<close> succeeds; in the new
  state every item that the character owned has no owner and every other item is as it
  was, the character is no longer found, no item has it as owner, and no item is deleted:
  the identifiers of the item table are the same, and \<open>buscar_item_magico\<close> finds for
  every identifier the item it found before (with the owner removed when it was the
  character).
\<close>

theorem remover_personagem_desvincula:
  "find (\<lambda>p. p_id p = pid) (personagens s) = Some p \<longrightarrow>
     (\<exists>s'. remover_personagem s pid = Inr s'
        \<and> itens_magicos s' =
            map (\<lambda>i. if i_personagem_id i = Some pid then i\<lparr>i_personagem_id := None\<rparr> else i)
                (itens_magicos s)
        \<and> personagens s' = filter (\<lambda>q. p_id q \<noteq> pid) (personagens s)
        \<and> buscar_personagem s' pid = Inl NotFound_Personagem
        \<and> itens_magicos_de s' pid = []
        \<and> map i_id (itens_magicos s') = map i_id (itens_magicos s)
        \<and> (\<forall>iid. buscar_item_magico s' iid =
              (case buscar_item_magico s iid of
                 Inl e \<Rightarrow> Inl e
               | Inr i \<Rightarrow> Inr (if i_personagem_id i = Some pid
                               then i\<lparr>i_personagem_id := None\<rparr> else i)))
        \<and> (\<forall>i\<in>set (itens_magicos s).
              \<exists>i'. buscar_item_magico s' (i_id i) = Inr i' \<and> i_id i' = i_id i))"
proof
  assume p: "find (\<lambda>p. p_id p = pid) (personagens s) = Some p"
  let ?f = "\<lambda>i. if i_personagem_id i = Some pid then i\<lparr>i_personagem_id := None\<rparr> else i"
  let ?s' = "\<lparr>personagens = filter (\<lambda>q. p_id q \<noteq> pid) (personagens s),
              itens_magicos = map ?f (itens_magicos s)\<rparr>"
  have pp: "p_id p = pid" using find_Some_D[OF p] by simp
  have r: "remover_personagem s pid = Inr ?s'"
    using p pp by (simp add: remover_personagem_def)
  have gone: "buscar_personagem ?s' pid = Inl NotFound_Personagem"
  proof -
    have "find (\<lambda>p. p_id p = pid) (filter (\<lambda>q. p_id q \<noteq> pid) (personagens s)) = None"
      by (simp add: find_None_iff)
    then show ?thesis by (simp add: buscar_personagem_def)
  qed
  have none: "itens_magicos_de ?s' pid = []"
    by (auto simp: itens_magicos_de_def filter_empty_conv)
  have ids: "map i_id (itens_magicos ?s') = map i_id (itens_magicos s)"
    by (simp add: map_id_upd del: map_map)
  have fnd: "find (\<lambda>i. i_id i = iid) (map ?f (itens_magicos s))
             = map_option ?f (find (\<lambda>i. i_id i = iid) (itens_magicos s))" for iid
    by (rule find_map_inv) simp
  have busca: "buscar_item_magico ?s' iid =
              (case buscar_item_magico s iid of
                 Inl e \<Rightarrow> Inl e
               | Inr i \<Rightarrow> Inr (?f i))" for iid
    by (cases "find (\<lambda>i. i_id i = iid) (itens_magicos s)")
       (simp_all add: buscar_item_magico_def fnd)
  have still: "\<exists>i'. buscar_item_magico ?s' (i_id i) = Inr i' \<and> i_id i' = i_id i"
    if i: "i \<in> set (itens_magicos s)" for i
  proof (cases "find (\<lambda>j. i_id j = i_id i) (itens_magicos s)")
    case None
    from find_None_D[OF None i] show ?thesis by simp
  next
    case (Some j)
    from find_Some_D[OF Some] have "i_id j = i_id i" by simp
    then show ?thesis using Some by (simp add: buscar_item_magico_def fnd)
  qed
  show "\<exists>s'. remover_personagem s pid = Inr s'
        \<and> itens_magicos s' = map ?f (itens_magicos s)
        \<and> personagens s' = filter (\<lambda>q. p_id q \<noteq> pid) (personagens s)
        \<and> buscar_personagem s' pid = Inl NotFound_Personagem
        \<and> itens_magicos_de s' pid = []
        \<and> map i_id (itens_magicos s') = map i_id (itens_magicos s)
        \<and> (\<forall>iid. buscar_item_magico s' iid =
              (case buscar_item_magico s iid of
                 Inl e \<Rightarrow> Inl e
               | Inr i \<Rightarrow> Inr (?f i)))
        \<and> (\<forall>i\<in>set (itens_magicos s).
              \<exists>i'. buscar_item_magico s' (i_id i) = Inr i' \<and> i_id i' = i_id i)"
  proof (intro exI[of _ ?s'] conjI allI ballI)
    show "remover_personagem s pid = Inr ?s'" by (rule r)
    show "itens_magicos ?s' = map ?f (itens_magicos s)" by simp
    show "personagens ?s' = filter (\<lambda>q. p_id q \<noteq> pid) (personagens s)" by simp
    show "buscar_personagem ?s' pid = Inl NotFound_Personagem" by (rule gone)
    show "itens_magicos_de ?s' pid = []" by (rule none)
    show "map i_id (itens_magicos ?s') = map i_id (itens_magicos s)" by (rule ids)
    show "buscar_item_magico ?s' iid =
              (case buscar_item_magico s iid of
                 Inl e \<Rightarrow> Inl e
               | Inr i \<Rightarrow> Inr (?f i))" for iid by (rule busca)
    show "\<exists>i'. buscar_item_magico ?s' (i_id i) = Inr i' \<and> i_id i' = i_id i"
      if "i \<in> set (itens_magicos s)" for i using that by (rule still)
  qed
qed

theorem remover_personagem_desvincula_witness:
  "find (\<lambda>p. p_id p = 1) (personagens estado_exemplo) = Some (heroi 1)
   \<and> remover_personagem estado_exemplo 1 =
       Inr \<lparr>personagens = [heroi 2],
            itens_magicos = [amuleto 1 None, amuleto 2 (Some 2), amuleto 3 None]\<rparr>
   \<and> buscar_personagem \<lparr>personagens = [heroi 2],
            itens_magicos = [amuleto 1 None, amuleto 2 (Some 2), amuleto 3 None]\<rparr> 1
       = Inl NotFound_Personagem
   \<and> itens_magicos_de \<lparr>personagens = [heroi 2],
            itens_magicos = [amuleto 1 None, amuleto 2 (Some 2), amuleto 3 None]\<rparr> 1 = []
   \<and> buscar_item_magico \<lparr>personagens = [heroi 2],
            itens_magicos = [amuleto 1 None, amuleto 2 (Some 2), amuleto 3 None]\<rparr> 1
       = Inr (amuleto 1 None)"
proof -
  let ?X = "\<lparr>personagens = [heroi 2],
            itens_magicos = [amuleto 1 None, amuleto 2 (Some 2), amuleto 3 None]\<rparr>"
  have r: "remover_personagem estado_exemplo 1 = Inr ?X" by (rule exemplo_operacoes(5))
  have "\<exists>s'. remover_personagem estado_exemplo 1 = Inr s'
        \<and> itens_magicos s' =
            map (\<lambda>i. if i_personagem_id i = Some 1 then i\<lparr>i_personagem_id := None\<rparr> else i)
                (itens_magicos estado_exemplo)
        \<and> personagens s' = filter (\<lambda>q. p_id q \<noteq> 1) (personagens estado_exemplo)
        \<and> buscar_personagem s' 1 = Inl NotFound_Personagem
        \<and> itens_magicos_de s' 1 = []
        \<and> map i_id (itens_magicos s') = map i_id (itens_magicos estado_exemplo)
        \<and> (\<forall>iid. buscar_item_magico s' iid =
              (case buscar_item_magico estado_exemplo iid of
                 Inl e \<Rightarrow> Inl e
               | Inr i \<Rightarrow> Inr (if i_personagem_id i = Some 1
                               then i\<lparr>i_personagem_id := None\<rparr> else i)))
        \<and> (\<forall>i\<in>set (itens_magicos estado_exemplo).
              \<exists>i'. buscar_item_magico s' (i_id i) = Inr i' \<and> i_id i' = i_id i)"
    using remover_personagem_desvincula [of 1 estado_exemplo "heroi 1"] exemplo_achados(1)
    by (rule mp)
  then obtain s' where s': "remover_personagem estado_exemplo 1 = Inr s'"
    and g: "buscar_personagem s' 1 = Inl NotFound_Personagem"
    and e: "itens_magicos_de s' 1 = []"
    and b: "\<forall>iid. buscar_item_magico s' iid =
              (case buscar_item_magico estado_exemplo iid of
                 Inl e \<Rightarrow> Inl e
               | Inr i \<Rightarrow> Inr (if i_personagem_id i = Some 1
                               then i\<lparr>i_personagem_id := None\<rparr> else i))"
    by (elim exE conjE)
  from s' r have x: "s' = ?X" by simp
  have "buscar_item_magico estado_exemplo 1 = Inr (amuleto 1 (Some 1))"
    using exemplo_achados(4) by (simp add: buscar_item_magico_def)
  with b have "buscar_item_magico s' 1 = Inr (amuleto 1 None)"
    by (simp add: amuleto_def)
  with g e r exemplo_achados(1) show ?thesis unfolding x by simp
qed

section \<open>Detaching an item\<close>

text \<open>
  Claim C7, as amended. In a reachable state and for a character that exists,
  \<open>remover_item_do_personagem\<close> fails with the 404 of the item that is not in the
  inventory when no item has the identifier, when the item has no owner and when its owner
  is another character. When the item is owned by the character the route succeeds: the
  item is still found by its identifier, with no owner and nothing else changed, and the
  identifiers of the item table and the character table are as they were.
\<close>

theorem remover_item_nao_encontrado:
  "alcancavel s \<and> find (\<lambda>p. p_id p = pid) (personagens s) = Some p \<longrightarrow>
     (find (\<lambda>i. i_id i = iid) (itens_magicos s) = None \<longrightarrow>
        remover_item_do_personagem s pid iid = Inl NotFound_Inventario)
     \<and> (find (\<lambda>i. i_id i = iid) (itens_magicos s) = Some it \<and> i_personagem_id it \<noteq> Some pid \<longrightarrow>
        remover_item_do_personagem s pid iid = Inl NotFound_Inventario
        \<and> status_code NotFound_Inventario = 404)
     \<and> (find (\<lambda>i. i_id i = iid) (itens_magicos s) = Some it \<and> i_personagem_id it = Some pid \<longrightarrow>
        (\<exists>s'. remover_item_do_personagem s pid iid = Inr s'
           \<and> buscar_item_magico s' iid = Inr (it\<lparr>i_personagem_id := None\<rparr>)
           \<and> map i_id (itens_magicos s') = map i_id (itens_magicos s)
           \<and> personagens s' = personagens s))"
proof (intro impI, elim conjE)
  assume r: "alcancavel s" and p: "find (\<lambda>p. p_id p = pid) (personagens s) = Some p"
  from alcancavel_invariante[OF r] have d: "distinct (map i_id (itens_magicos s))"
    by (simp add: invariante_def)
  have a: "remover_item_do_personagem s pid iid = Inl NotFound_Inventario"
    if n: "find (\<lambda>i. i_id i = iid) (itens_magicos s) = None"
  proof -
    have "find (\<lambda>i. i_id i = iid \<and> i_personagem_id i = Some pid) (itens_magicos s) = None"
      using n by (auto simp: find_None_iff)
    then show ?thesis using p by (simp add: remover_item_do_personagem_def)
  qed
  have b: "remover_item_do_personagem s pid iid = Inl NotFound_Inventario"
    if f: "find (\<lambda>i. i_id i = iid) (itens_magicos s) = Some it" and o: "i_personagem_id it \<noteq> Some pid"
    using find_id_distinct[OF d f, of "\<lambda>i. i_personagem_id i = Some pid"] o p
    by (simp add: remover_item_do_personagem_def)
  have c: "\<exists>s'. remover_item_do_personagem s pid iid = Inr s'
           \<and> buscar_item_magico s' iid = Inr (it\<lparr>i_personagem_id := None\<rparr>)
           \<and> map i_id (itens_magicos s') = map i_id (itens_magicos s)
           \<and> personagens s' = personagens s"
    if f: "find (\<lambda>i. i_id i = iid) (itens_magicos s) = Some it" and o: "i_personagem_id it = Some pid"
  proof -
    let ?g = "\<lambda>i. if i_id i = i_id it then i\<lparr>i_personagem_id := None\<rparr> else i"
    let ?s' = "s\<lparr>itens_magicos := map ?g (itens_magicos s)\<rparr>"
    have iid: "i_id it = iid" using find_Some_D[OF f] by simp
    have "remover_item_do_personagem s pid iid = Inr ?s'"
      using find_id_distinct[OF d f, of "\<lambda>i. i_personagem_id i = Some pid"] o p
      by (simp add: remover_item_do_personagem_def)
    moreover have "find (\<lambda>i. i_id i = iid) (map ?g (itens_magicos s))
             = map_option ?g (find (\<lambda>i. i_id i = iid) (itens_magicos s))"
      by (rule find_map_inv) simp
    then have "buscar_item_magico ?s' iid = Inr (it\<lparr>i_personagem_id := None\<rparr>)"
      using f iid by (simp add: buscar_item_magico_def)
    moreover have "map i_id (itens_magicos ?s') = map i_id (itens_magicos s)"
      by (simp add: map_id_upd del: map_map)
    moreover have "personagens ?s' = personagens s" by simp
    ultimately show ?thesis by blast
  qed
  from a b c show "(find (\<lambda>i. i_id i = iid) (itens_magicos s) = None \<longrightarrow>
        remover_item_do_personagem s pid iid = Inl NotFound_Inventario)
     \<and> (find (\<lambda>i. i_id i = iid) (itens_magicos s) = Some it \<and> i_personagem_id it \<noteq> Some pid \<longrightarrow>
        remover_item_do_personagem s pid iid = Inl NotFound_Inventario
        \<and> status_code NotFound_Inventario = 404)
     \<and> (find (\<lambda>i. i_id i = iid) (itens_magicos s) = Some it \<and> i_personagem_id it = Some pid \<longrightarrow>
        (\<exists>s'. remover_item_do_personagem s pid iid = Inr s'
           \<and> buscar_item_magico s' iid = Inr (it\<lparr>i_personagem_id := None\<rparr>)
           \<and> map i_id (itens_magicos s') = map i_id (itens_magicos s)
           \<and> personagens s' = personagens s))"
    by simp
qed

theorem remover_item_nao_encontrado_witness:
  "alcancavel estado_exemplo
   \<and> find (\<lambda>p. p_id p = 1) (personagens estado_exemplo) = Some (heroi 1)
   \<and> find (\<lambda>i. i_id i = 7) (itens_magicos estado_exemplo) = None
   \<and> remover_item_do_personagem estado_exemplo 1 7 = Inl NotFound_Inventario
   \<and> find (\<lambda>i. i_id i = 3) (itens_magicos estado_exemplo) = Some (amuleto 3 None)
   \<and> remover_item_do_personagem estado_exemplo 1 3 = Inl NotFound_Inventario
   \<and> find (\<lambda>i. i_id i = 2) (itens_magicos estado_exemplo) = Some (amuleto 2 (Some 2))
   \<and> remover_item_do_personagem estado_exemplo 1 2 = Inl NotFound_Inventario
   \<and> find (\<lambda>i. i_id i = 1) (itens_magicos estado_exemplo) = Some (amuleto 1 (Some 1))
   \<and> (\<exists>s'. remover_item_do_personagem estado_exemplo 1 1 = Inr s'
          \<and> buscar_item_magico s' 1 = Inr (amuleto 1 None))"
proof -
  have n7: "find (\<lambda>i. i_id i = 7) (itens_magicos estado_exemplo) = None"
    by (simp add: estado_exemplo_def amuleto_def)
  have o: "i_personagem_id (amuleto 3 None) \<noteq> Some 1" "i_personagem_id (amuleto 2 (Some 2)) \<noteq> Some 1"
    "i_personagem_id (amuleto 1 (Some 1)) = Some 1"
    "(amuleto 1 (Some 1))\<lparr>i_personagem_id := None\<rparr> = amuleto 1 None"
    by (simp_all add: amuleto_def)
  show ?thesis
    using remover_item_nao_encontrado [of estado_exemplo 1 "heroi 1" 7 "amuleto 3 None"]
          remover_item_nao_encontrado [of estado_exemplo 1 "heroi 1" 3 "amuleto 3 None"]
          remover_item_nao_encontrado [of estado_exemplo 1 "heroi 1" 2 "amuleto 2 (Some 2)"]
          remover_item_nao_encontrado [of estado_exemplo 1 "heroi 1" 1 "amuleto 1 (Some 1)"]
          alcancavel_exemplo exemplo_achados n7 o
    by simp blast
qed

text \<open>
  Item 3 has no owner and there is no character 99: detaching item 3 from character 99
  fails with the error of the character that is not found, not with the one of the item.
\<close>

theorem personagem_inexistente_counterexample:
  "alcancavel estado_exemplo
   \<and> buscar_item_magico estado_exemplo 3 = Inr (amuleto 3 None)
   \<and> i_personagem_id (amuleto 3 None) = None
   \<and> buscar_personagem estado_exemplo 99 = Inl NotFound_Personagem
   \<and> remover_item_do_personagem estado_exemplo 99 3 = Inl NotFound_Personagem
   \<and> remover_item_do_personagem estado_exemplo 99 3 \<noteq> Inl NotFound_Inventario"
  using alcancavel_exemplo exemplo_achados
  by (simp add: buscar_item_magico_def buscar_personagem_def remover_item_do_personagem_def
        amuleto_def)

section \<open>Renaming\<close>

text \<open>
  Claim C10. For a character that exists, \<open>atualizar_nome_aventureiro\<close> succeeds and
  returns the character with the new adventurer name and every other field as it was
  (identifier, name, class, level, base strength, base defense); the character is found
  so afterwards, every other character is found as before, and the item table, with the
  owner of every item, is unchanged.
\<close>

theorem atualizar_so_nome_aventureiro:
  "find (\<lambda>p. p_id p = pid) (personagens s) = Some p \<longrightarrow>
     (\<exists>s' p'. atualizar_nome_aventureiro s pid (Some d) = Inr (s', p')
        \<and> p' = p\<lparr>p_nome_aventureiro := nome_aventureiro d\<rparr>
        \<and> p_id p' = p_id p \<and> p_nome p' = p_nome p \<and> p_classe p' = p_classe p
        \<and> p_level p' = p_level p \<and> p_forca_base p' = p_forca_base p
        \<and> p_defesa_base p' = p_defesa_base p
        \<and> buscar_personagem s' pid = Inr p'
        \<and> itens_magicos s' = itens_magicos s
        \<and> personagens s' =
            map (\<lambda>q. if p_id q = pid then q\<lparr>p_nome_aventureiro := nome_aventureiro d\<rparr> else q)
                (personagens s)
        \<and> (\<forall>q. q \<noteq> pid \<longrightarrow> buscar_personagem s' q = buscar_personagem s q))"
proof
  assume p: "find (\<lambda>p. p_id p = pid) (personagens s) = Some p"
  let ?f = "\<lambda>q. if p_id q = pid then q\<lparr>p_nome_aventureiro := nome_aventureiro d\<rparr> else q"
  let ?s' = "s\<lparr>personagens := map ?f (personagens s)\<rparr>"
  let ?p' = "p\<lparr>p_nome_aventureiro := nome_aventureiro d\<rparr>"
  have pp: "p_id p = pid" using find_Some_D[OF p] by simp
  have r: "atualizar_nome_aventureiro s pid (Some d) = Inr (?s', ?p')"
    using p pp by (simp add: atualizar_nome_aventureiro_def)
  have fnd: "find (\<lambda>p. p_id p = q) (map ?f (personagens s))
             = map_option ?f (find (\<lambda>p. p_id p = q) (personagens s))" for q
    by (rule find_map_inv) simp
  have b1: "buscar_personagem ?s' pid = Inr ?p'"
    using p pp by (simp add: buscar_personagem_def fnd)
  have b2: "buscar_personagem ?s' q = buscar_personagem s q" if "q \<noteq> pid" for q
  proof (cases "find (\<lambda>p. p_id p = q) (personagens s)")
    case None
    then show ?thesis by (simp add: buscar_personagem_def fnd)
  next
    case (Some x)
    from find_Some_D[OF Some] that have "p_id x \<noteq> pid" by simp
    then show ?thesis using Some by (simp add: buscar_personagem_def fnd)
  qed
  show "\<exists>s' p'. atualizar_nome_aventureiro s pid (Some d) = Inr (s', p')
        \<and> p' = p\<lparr>p_nome_aventureiro := nome_aventureiro d\<rparr>
        \<and> p_id p' = p_id p \<and> p_nome p' = p_nome p \<and> p_classe p' = p_classe p
        \<and> p_level p' = p_level p \<and> p_forca_base p' = p_forca_base p
        \<and> p_defesa_base p' = p_defesa_base p
        \<and> buscar_personagem s' pid = Inr p'
        \<and> itens_magicos s' = itens_magicos s
        \<and> personagens s' = map ?f (personagens s)
        \<and> (\<forall>q. q \<noteq> pid \<longrightarrow> buscar_personagem s' q = buscar_personagem s q)"
    apply (rule exI[of _ ?s'])
    apply (rule exI[of _ ?p'])
    using r b1 b2 by simp
qed

theorem atualizar_so_nome_aventureiro_witness:
  "find (\<lambda>p. p_id p = 1) (personagens estado_exemplo) = Some (heroi 1)
   \<and> (\<exists>s'. atualizar_nome_aventureiro estado_exemplo 1 (Some \<lparr>nome_aventureiro = ''Urso''\<rparr>)
            = Inr (s', (heroi 1)\<lparr>p_nome_aventureiro := ''Urso''\<rparr>)
          \<and> itens_magicos s' = itens_magicos estado_exemplo
          \<and> buscar_personagem s' 2 = Inr (heroi 2))"
  using atualizar_so_nome_aventureiro [of 1 estado_exemplo "heroi 1" "\<lparr>nome_aventureiro = ''Urso''\<rparr>"]
        exemplo_achados
  by (auto simp: buscar_personagem_def)

end
